theory Spec2Isabelle
  imports Main "HOL-Library.Word"
begin

unbundle bit_operations_syntax

section \<open>The operating system as seen by \<open>file_posix.cc\<close>\<close>

text \<open>
  The functions of \<open>src/main/cpp/util/file_posix.cc\<close> are sequences of system calls.
  The kernel is not part of the repository, so it is a parameter: a record of functions
  over an abstract kernel state \<open>'k\<close>. A failing call returns the error number
  (\<open>Inl e\<close>, the value the C library stores in \<open>errno\<close>), a successful one the new
  kernel state. What the process itself owns is modelled concretely: \<open>errno\<close>, the
  effective user id, the file mode creation mask, and a log of the calls made.
\<close>

type_synonym mode_t = "32 word"
type_synonym uid_t = "32 word"
type_synonym time_t = int

definition ENOENT :: int where "ENOENT = 2"
definition EIO :: int where "EIO = 5"
definition EACCES :: int where "EACCES = 13"
definition EEXIST :: int where "EEXIST = 17"
definition ENOTDIR :: int where "ENOTDIR = 20"
definition ENOSPC :: int where "ENOSPC = 28"
definition EROFS :: int where "EROFS = 30"

record struct_stat =
  st_mode :: mode_t
  st_uid :: uid_t
  st_mtime :: time_t

record utimbuf =
  actime :: time_t
  modtime :: time_t

datatype syscall =
    SysStat string
  | SysLstat string
  | SysGeteuid
  | SysUmask mode_t
  | SysChmod string mode_t
  | SysMkdir string mode_t
  | SysUnlink string
  | SysOpen string
  | SysWrite int nat
  | SysClose int
  | SysUtime string time_t time_t

record 'k os =
  os_stat :: "'k \<Rightarrow> string \<Rightarrow> int + struct_stat"
  os_lstat :: "'k \<Rightarrow> string \<Rightarrow> int + struct_stat"
  os_chmod :: "'k \<Rightarrow> string \<Rightarrow> mode_t \<Rightarrow> int + 'k"
  os_mkdir :: "'k \<Rightarrow> 9 word \<Rightarrow> string \<Rightarrow> mode_t \<Rightarrow> int + 'k"
  os_unlink :: "'k \<Rightarrow> string \<Rightarrow> int + 'k"
  os_open :: "'k \<Rightarrow> 9 word \<Rightarrow> string \<Rightarrow> int + 'k \<times> int"
  os_write :: "'k \<Rightarrow> int \<Rightarrow> string \<Rightarrow> int + 'k \<times> nat"
  os_close :: "'k \<Rightarrow> int \<Rightarrow> 'k \<times> int option"
  os_utime :: "'k \<Rightarrow> string \<Rightarrow> utimbuf \<Rightarrow> int + 'k"

record 'k proc =
  kernel :: 'k
  errno :: int
  euid :: uid_t
  cur_umask :: "9 word"
  trace :: "syscall list"

definition logged :: "syscall \<Rightarrow> 'k proc \<Rightarrow> 'k proc" where
  "logged c w = w\<lparr>trace := trace w @ [c]\<rparr>"

text \<open>\<open>stat(2)\<close> and \<open>lstat(2)\<close>: reads of the kernel state; \<open>None\<close> is the return value -1.\<close>

definition sys_stat :: "'k os \<Rightarrow> string \<Rightarrow> 'k proc \<Rightarrow> struct_stat option \<times> 'k proc" where
  "sys_stat os path w =
     (case os_stat os (kernel w) path of
        Inl e \<Rightarrow> (None, (logged (SysStat path) w)\<lparr>errno := e\<rparr>)
      | Inr buf \<Rightarrow> (Some buf, logged (SysStat path) w))"

definition sys_lstat :: "'k os \<Rightarrow> string \<Rightarrow> 'k proc \<Rightarrow> struct_stat option \<times> 'k proc" where
  "sys_lstat os path w =
     (case os_lstat os (kernel w) path of
        Inl e \<Rightarrow> (None, (logged (SysLstat path) w)\<lparr>errno := e\<rparr>)
      | Inr buf \<Rightarrow> (Some buf, logged (SysLstat path) w))"

definition sys_geteuid :: "'k proc \<Rightarrow> uid_t \<times> 'k proc" where
  "sys_geteuid w = (euid w, logged SysGeteuid w)"

text \<open>
  \<open>umask(2)\<close> stores the permission bits of its argument (\<open>mask & 0777\<close>) and returns the
  previous mask; it never fails. The stored mask has nine bits by its type.
\<close>

definition sys_umask :: "mode_t \<Rightarrow> 'k proc \<Rightarrow> mode_t \<times> 'k proc" where
  "sys_umask m w = (ucast (cur_umask w), (logged (SysUmask m) w)\<lparr>cur_umask := ucast m\<rparr>)"

text \<open>The calls that change the file system return \<open>True\<close> for 0 and \<open>False\<close> for -1.\<close>

definition sys_chmod :: "'k os \<Rightarrow> string \<Rightarrow> mode_t \<Rightarrow> 'k proc \<Rightarrow> bool \<times> 'k proc" where
  "sys_chmod os path m w =
     (case os_chmod os (kernel w) path m of
        Inl e \<Rightarrow> (False, (logged (SysChmod path m) w)\<lparr>errno := e\<rparr>)
      | Inr k \<Rightarrow> (True, (logged (SysChmod path m) w)\<lparr>kernel := k\<rparr>))"

definition sys_mkdir :: "'k os \<Rightarrow> string \<Rightarrow> mode_t \<Rightarrow> 'k proc \<Rightarrow> bool \<times> 'k proc" where
  "sys_mkdir os path m w =
     (case os_mkdir os (kernel w) (cur_umask w) path m of
        Inl e \<Rightarrow> (False, (logged (SysMkdir path m) w)\<lparr>errno := e\<rparr>)
      | Inr k \<Rightarrow> (True, (logged (SysMkdir path m) w)\<lparr>kernel := k\<rparr>))"

definition sys_unlink :: "'k os \<Rightarrow> string \<Rightarrow> 'k proc \<Rightarrow> bool \<times> 'k proc" where
  "sys_unlink os path w =
     (case os_unlink os (kernel w) path of
        Inl e \<Rightarrow> (False, (logged (SysUnlink path) w)\<lparr>errno := e\<rparr>)
      | Inr k \<Rightarrow> (True, (logged (SysUnlink path) w)\<lparr>kernel := k\<rparr>))"

text \<open>\<open>open(path, O_CREAT | O_WRONLY | O_TRUNC, 0755)\<close>: the descriptor, or \<open>None\<close> for -1.\<close>

definition sys_open :: "'k os \<Rightarrow> string \<Rightarrow> 'k proc \<Rightarrow> int option \<times> 'k proc" where
  "sys_open os path w =
     (case os_open os (kernel w) (cur_umask w) path of
        Inl e \<Rightarrow> (None, (logged (SysOpen path) w)\<lparr>errno := e\<rparr>)
      | Inr (k, fd) \<Rightarrow> (Some fd, (logged (SysOpen path) w)\<lparr>kernel := k\<rparr>))"

text \<open>\<open>write(fd, buf, bufsize)\<close>: the number of bytes written, or \<open>None\<close> for -1.\<close>

definition sys_write :: "'k os \<Rightarrow> int \<Rightarrow> string \<Rightarrow> 'k proc \<Rightarrow> nat option \<times> 'k proc" where
  "sys_write os fd buf w =
     (case os_write os (kernel w) fd buf of
        Inl e \<Rightarrow> (None, (logged (SysWrite fd (length buf)) w)\<lparr>errno := e\<rparr>)
      | Inr (k, n) \<Rightarrow> (Some n, (logged (SysWrite fd (length buf)) w)\<lparr>kernel := k\<rparr>))"

text \<open>\<open>close(fd)\<close> releases the descriptor also when it reports an error.\<close>

definition sys_close :: "'k os \<Rightarrow> int \<Rightarrow> 'k proc \<Rightarrow> bool \<times> 'k proc" where
  "sys_close os fd w =
     (case os_close os (kernel w) fd of
        (k, Some e) \<Rightarrow> (False, (logged (SysClose fd) w)\<lparr>kernel := k, errno := e\<rparr>)
      | (k, None) \<Rightarrow> (True, (logged (SysClose fd) w)\<lparr>kernel := k\<rparr>))"

definition sys_utime :: "'k os \<Rightarrow> string \<Rightarrow> utimbuf \<Rightarrow> 'k proc \<Rightarrow> bool \<times> 'k proc" where
  "sys_utime os path t w =
     (case os_utime os (kernel w) path t of
        Inl e \<Rightarrow> (False, (logged (SysUtime path (actime t) (modtime t)) w)\<lparr>errno := e\<rparr>)
      | Inr k \<Rightarrow> (True, (logged (SysUtime path (actime t) (modtime t)) w)\<lparr>kernel := k\<rparr>))"

section \<open>Directory Materializer: \<open>GetDirectoryStat\<close> and \<open>MakeDirectories\<close>\<close>

text \<open>\<open>S_ISDIR(m)\<close> is \<open>(m & S_IFMT) == S_IFDIR\<close>, with \<open>S_IFMT = 0170000\<close> and
  \<open>S_IFDIR = 0040000\<close>.\<close>

definition S_ISDIR :: "mode_t \<Rightarrow> bool" where
  "S_ISDIR m \<longleftrightarrow> m AND 0xF000 = 0x4000"

text \<open>
  \<open>GetDirectoryStat\<close> (lines 48 to 82). The constants are \<open>022 = 18\<close> and
  \<open>0777 = 511\<close>. The conjunction of line 76 is short-circuit: \<open>chmod\<close> is called only
  when the permission bits differ from the wanted ones.
\<close>

definition GetDirectoryStat ::
    "'k os \<Rightarrow> 'k proc \<Rightarrow> string \<Rightarrow> mode_t \<Rightarrow> bool \<Rightarrow> bool \<times> 'k proc" where
  "GetDirectoryStat os w path mode check_perms =
     (case sys_stat os path w of
        (None, w1) \<Rightarrow> (False, w1)
      | (Some filestat, w1) \<Rightarrow>
          if \<not> S_ISDIR (st_mode filestat) then (False, w1\<lparr>errno := ENOTDIR\<rparr>)
          else if check_perms then
            (case sys_lstat os path w1 of
               (None, w2) \<Rightarrow> (False, w2)
             | (Some linkstat, w2) \<Rightarrow>
                 (case sys_geteuid w2 of
                    (me, w3) \<Rightarrow>
                      if st_uid linkstat \<noteq> me then (False, w3\<lparr>errno := EACCES\<rparr>)
                      else
                        (case sys_umask 18 w3 of
                           (umask0, w4) \<Rightarrow>
                             (case sys_umask umask0 w4 of
                                (_, w5) \<Rightarrow>
                                  let mode' = mode AND NOT umask0 in
                                  if st_mode filestat AND 511 \<noteq> mode' then
                                    (case sys_chmod os path mode' w5 of
                                       (False, w6) \<Rightarrow> (False, w6)
                                     | (True, w6) \<Rightarrow> (True, w6))
                                  else (True, w5)))))
          else (True, w1))"

text \<open>\<open>std::string::rfind(c)\<close>: the last position of \<open>c\<close>, \<open>None\<close> for \<open>npos\<close>.\<close>

primrec rfind :: "char \<Rightarrow> string \<Rightarrow> nat option" where
  "rfind c [] = None"
| "rfind c (x # xs) =
     (case rfind c xs of
        Some i \<Rightarrow> Some (Suc i)
      | None \<Rightarrow> if x = c then Some 0 else None)"

text \<open>\<open>SplitPath\<close> (lines 171 to 181).\<close>

definition SplitPath :: "string \<Rightarrow> string \<times> string" where
  "SplitPath path =
     (case rfind (CHR ''/'') path of
        None \<Rightarrow> ([], path)
      | Some pos \<Rightarrow>
          if pos = 0 then (take 1 path, drop 1 path)
          else (take pos path, drop (pos + 1) path))"

text \<open>
  Modelled from the spec: \<open>Dirname\<close> is defined in \<open>src/main/cpp/util/file.cc\<close>, which is
  not among the sources; only its call at line 97 is. The parent of a path is "the prefix
  before the last '/', via SplitPath", the first component of \<open>SplitPath\<close>.
\<close>

definition Dirname :: "string \<Rightarrow> string" where
  "Dirname path = fst (SplitPath path)"

text \<open>\<open>IsRootDirectory\<close> (lines 263 to 265).\<close>

definition IsRootDirectory :: "string \<Rightarrow> bool" where
  "IsRootDirectory path \<longleftrightarrow> length path = 1 \<and> path ! 0 = CHR ''/''"

lemma rfind_less: "rfind c s = Some i \<Longrightarrow> i < length s"
  by (induction s arbitrary: i) (auto split: option.splits if_splits)

lemma rfind_zero: "rfind c s = Some 0 \<Longrightarrow> \<exists>r. s = c # r"
  by (cases s) (auto split: option.splits if_splits)

lemma Dirname_shorter:
  assumes "path \<noteq> []" and "\<not> IsRootDirectory path"
  shows "length (Dirname path) < length path"
proof (cases "rfind (CHR ''/'') path")
  case None
  with assms show ?thesis by (simp add: Dirname_def SplitPath_def)
next
  case (Some pos)
  show ?thesis
  proof (cases "pos = 0")
    case True
    with Some obtain r where r: "path = CHR ''/'' # r"
      using rfind_zero by blast
    with assms have "r \<noteq> []" by (auto simp: IsRootDirectory_def)
    with r Some True show ?thesis by (simp add: Dirname_def SplitPath_def)
  next
    case False
    with Some rfind_less [OF Some] show ?thesis
      by (simp add: Dirname_def SplitPath_def)
  qed
qed

text \<open>
  \<open>MakeDirectories\<close> (lines 84 to 125). The recursion is on the parent of the path;
  it ends because the parent of a path that is neither empty nor the root is shorter.
\<close>

function (domintros) MakeDirectories ::
    "'k os \<Rightarrow> 'k proc \<Rightarrow> string \<Rightarrow> mode_t \<Rightarrow> bool \<Rightarrow> bool \<times> 'k proc" where
  "MakeDirectories os w path mode childmost =
     (if path = [] \<or> IsRootDirectory path then (False, w\<lparr>errno := EACCES\<rparr>)
      else
        (case GetDirectoryStat os w path mode childmost of
           (True, w1) \<Rightarrow> (True, w1)
         | (False, w1) \<Rightarrow>
             if errno w1 = ENOENT then
               (case MakeDirectories os w1 (Dirname path) mode False of
                  (False, w2) \<Rightarrow> (False, w2)
                | (True, w2) \<Rightarrow>
                    (case sys_mkdir os path mode w2 of
                       (True, w3) \<Rightarrow> (True, w3)
                     | (False, w3) \<Rightarrow>
                         if errno w3 = EEXIST then
                           (if childmost then GetDirectoryStat os w3 path mode childmost
                            else (True, w3))
                         else (False, w3)))
             else (False, w1)))"
  by pat_completeness auto
termination
  by (relation "measure (\<lambda>(os, w, path, mode, childmost). length path)")
     (auto simp: Dirname_shorter)

declare MakeDirectories.simps [simp del]

text \<open>The public \<open>MakeDirectories(path, mode)\<close> (lines 352 to 354).\<close>

definition MakeDirectories_public :: "'k os \<Rightarrow> 'k proc \<Rightarrow> string \<Rightarrow> mode_t \<Rightarrow> bool \<times> 'k proc" where
  "MakeDirectories_public os w path mode = MakeDirectories os w path mode True"

text \<open>The calls to \<open>umask\<close> among the calls logged after the first \<open>n\<close>.\<close>

definition umask_calls :: "nat \<Rightarrow> syscall list \<Rightarrow> syscall list" where
  "umask_calls n cs = filter (\<lambda>c. case c of SysUmask m \<Rightarrow> True | _ \<Rightarrow> False) (drop n cs)"

section \<open>Atomic File Writer: \<open>WriteFile\<close>\<close>

text \<open>\<open>UnlinkPath\<close> (lines 211 to 213).\<close>

definition UnlinkPath :: "'k os \<Rightarrow> 'k proc \<Rightarrow> string \<Rightarrow> bool \<times> 'k proc" where
  "UnlinkPath os w file_path = sys_unlink os file_path w"

text \<open>
  Modelled from the spec: \<open>WriteTo\<close> is defined in \<open>src/main/cpp/util/file.cc\<close>, which is
  not among the sources; only its call at line 200 is. The write is reported as failed
  "if the written byte count does not match the requested size": the write function is
  called once on the whole buffer, and the result is whether it returned the size. A
  return value of -1 is no size, so it is a failure too.
\<close>

definition WriteTo ::
    "(string \<Rightarrow> 'k proc \<Rightarrow> nat option \<times> 'k proc) \<Rightarrow> 'k proc \<Rightarrow> string \<Rightarrow> bool \<times> 'k proc" where
  "WriteTo write_func w buf =
     (case write_func buf w of
        (None, w1) \<Rightarrow> (False, w1)
      | (Some r, w1) \<Rightarrow> (r = length buf, w1))"

text \<open>
  \<open>WriteFile\<close> (lines 193 to 209). The buffer \<open>data\<close> of \<open>size\<close> bytes is a string. The
  result of \<open>UnlinkPath\<close> is dropped. When \<open>close\<close> fails the function returns at line 205,
  before line 207 stores \<open>saved_errno\<close> back.
\<close>

definition WriteFile :: "'k os \<Rightarrow> 'k proc \<Rightarrow> string \<Rightarrow> string \<Rightarrow> bool \<times> 'k proc" where
  "WriteFile os w buf filename =
     (case UnlinkPath os w filename of
        (_, w1) \<Rightarrow>
          (case sys_open os filename w1 of
             (None, w2) \<Rightarrow> (False, w2)
           | (Some fd, w2) \<Rightarrow>
               (case WriteTo (sys_write os fd) w2 buf of
                  (result, w3) \<Rightarrow>
                    let saved_errno = errno w3 in
                    (case sys_close os fd w3 of
                       (False, w4) \<Rightarrow> (False, w4)
                     | (True, w4) \<Rightarrow> (result, w4\<lparr>errno := saved_errno\<rparr>)))))"

section \<open>Mtime Marker: \<open>PosixFileMtime\<close>\<close>

text \<open>
  \<open>time_t\<close> is a signed 64-bit integer on the platform of this repository (arm64). It is
  modelled as an \<open>int\<close>; an addition that leaves the range wraps around. The readings of
  the clock, the results of \<open>time(NULL)\<close>, are inputs.
\<close>

definition is_time_t :: "int \<Rightarrow> bool" where
  "is_time_t t \<longleftrightarrow> - (2 ^ 63) \<le> t \<and> t < 2 ^ 63"

definition wrap_time_t :: "int \<Rightarrow> time_t" where
  "wrap_time_t x = (x + 2 ^ 63) mod 2 ^ 64 - 2 ^ 63"

datatype fatal = Pdie string

text \<open>\<open>GetNow\<close> (lines 332 to 338); its argument is what \<open>time(NULL)\<close> returned.\<close>

definition GetNow :: "time_t \<Rightarrow> fatal + time_t" where
  "GetNow reading = (if reading = - 1 then Inl (Pdie ''time(NULL) failed'') else Inr reading)"

text \<open>
  \<open>GetFuture\<close> (lines 340 to 342). \<open>3600 * 24 * 365 * years\<close> is a product in
  \<open>unsigned int\<close>, modulo \<open>2 ^ 32\<close>; the sum is a \<open>time_t\<close>.
\<close>

definition GetFuture :: "time_t \<Rightarrow> nat \<Rightarrow> fatal + time_t" where
  "GetFuture reading years =
     (case GetNow reading of
        Inl d \<Rightarrow> Inl d
      | Inr now \<Rightarrow> Inr (wrap_time_t (now + int ((3600 * 24 * 365 * years) mod 2 ^ 32))))"

text \<open>
  The class (lines 283 to 302), with its members \<open>near_future_\<close> and \<open>distant_future_\<close>.
  The constructor calls \<open>GetFuture\<close> three times, in the order of the members and of the
  braced initialiser, so it takes three readings of the clock.
\<close>

record PosixFileMtime =
  near_future :: time_t
  distant_future :: utimbuf

definition PosixFileMtime_new :: "time_t \<Rightarrow> time_t \<Rightarrow> time_t \<Rightarrow> fatal + PosixFileMtime" where
  "PosixFileMtime_new r1 r2 r3 =
     (case GetFuture r1 9 of
        Inl d \<Rightarrow> Inl d
      | Inr near \<Rightarrow>
          (case GetFuture r2 10 of
             Inl d \<Rightarrow> Inl d
           | Inr a \<Rightarrow>
               (case GetFuture r3 10 of
                  Inl d \<Rightarrow> Inl d
                | Inr m \<Rightarrow>
                    Inr \<lparr>near_future = near, distant_future = \<lparr>actime = a, modtime = m\<rparr>\<rparr>)))"

text \<open>
  \<open>GetIfInDistantFuture\<close> (lines 304 to 316): \<open>None\<close> when it returns false, otherwise the
  value stored in \<open>*result\<close>.
\<close>

definition GetIfInDistantFuture ::
    "'k os \<Rightarrow> PosixFileMtime \<Rightarrow> 'k proc \<Rightarrow> string \<Rightarrow> bool option \<times> 'k proc" where
  "GetIfInDistantFuture os this w path =
     (case sys_stat os path w of
        (None, w1) \<Rightarrow> (None, w1)
      | (Some buf, w1) \<Rightarrow> (Some (st_mtime buf > near_future this), w1))"

text \<open>\<open>Set\<close> (lines 328 to 330), \<open>SetToNow\<close> (318 to 322), \<open>SetToDistantFuture\<close> (324 to 326).\<close>

definition Set_mtime :: "'k os \<Rightarrow> 'k proc \<Rightarrow> string \<Rightarrow> utimbuf \<Rightarrow> bool \<times> 'k proc" where
  "Set_mtime os w path mtime = sys_utime os path mtime w"

definition SetToNow ::
    "'k os \<Rightarrow> PosixFileMtime \<Rightarrow> 'k proc \<Rightarrow> string \<Rightarrow> time_t \<Rightarrow> fatal + bool \<times> 'k proc" where
  "SetToNow os this w path reading =
     (case GetNow reading of
        Inl d \<Rightarrow> Inl d
      | Inr now \<Rightarrow> Inr (Set_mtime os w path \<lparr>actime = now, modtime = now\<rparr>))"

definition SetToDistantFuture ::
    "'k os \<Rightarrow> PosixFileMtime \<Rightarrow> 'k proc \<Rightarrow> string \<Rightarrow> bool \<times> 'k proc" where
  "SetToDistantFuture os this w path = Set_mtime os w path (distant_future this)"

section \<open>The sandbox options: \<open>linux-sandbox-options.cc\<close>\<close>

text \<open>
  The ways in which the functions of \<open>src/main/tools/linux-sandbox-options.cc\<close> end
  without returning. \<open>Usage\<close> (lines 50 to 83) prints a message and the usage banner and
  exits with \<open>EXIT_FAILURE\<close>; the message is kept as a value of \<open>usage\<close>. \<open>DIE\<close> (lines 18
  to 24) prints its message and exits. \<open>Exit\<close> is the \<open>exit\<close> of line 134.
  \<open>StackExhausted\<close> is the end of a recursion deeper than the stack; \<open>Undefined\<close> stands
  for an operation whose behaviour C++ leaves undefined.
\<close>

datatype usage =
    NotAbsolute char
  | MultipleRootDirs
  | MultipleWorkingDirs
  | InvalidTimeout string
  | InvalidKillDelay string
  | MultipleStdout
  | MultipleStderr
  | TargetWithoutSource
  | UnrecognizedArgument char
  | MissingFlagArgument char
  | MergingCommands
  | NoCommand

datatype failure =
    UsageError usage
  | Exit int
  | Die string
  | StackExhausted
  | Undefined string

text \<open>
  \<open>struct Options\<close> is declared in \<open>linux-sandbox-options.h\<close>, which is not among the
  sources; its fields are the ones this file assigns. A \<open>char *\<close> that may be \<open>NULL\<close> is
  an option, a vector is a list. The global \<open>opt\<close> is zero-initialised.
\<close>

record Options =
  sandbox_root_dir :: "string option"
  working_dir :: "string option"
  timeout_secs :: int
  kill_delay_secs :: int
  stdout_path :: "string option"
  stderr_path :: "string option"
  writable_files :: "string list"
  inaccessible_files :: "string list"
  tmpfs_dirs :: "string list"
  bind_mount_sources :: "string list"
  bind_mount_targets :: "string list"
  create_netns :: bool
  fake_root :: bool
  debug :: bool
  args :: "string list"

definition initial_opt :: Options where
  "initial_opt =
     \<lparr>sandbox_root_dir = None, working_dir = None, timeout_secs = 0, kill_delay_secs = 0,
      stdout_path = None, stderr_path = None, writable_files = [], inaccessible_files = [],
      tmpfs_dirs = [], bind_mount_sources = [], bind_mount_targets = [],
      create_netns = False, fake_root = False, debug = False, args = []\<rparr>"

text \<open>
  What the parser takes from outside. \<open>posixly_correct\<close>: whether \<open>getopt\<close> stops at the
  first non-option (POSIX) or passes over non-options and moves them behind the options
  (GNU, the default). \<open>namespaces\<close>: how \<open>clone\<close> and \<open>waitpid\<close> end in the capability
  probe. \<open>indeterminate\<close>: the value found in the local \<open>source_specified\<close>, which line 126
  declares without an initialiser. \<open>arg_files\<close>: for a file name, \<open>None\<close> when the file
  cannot be opened, otherwise the lines \<open>std::getline\<close> delivers and whether the stream
  ends in the \<open>bad\<close> state. \<open>stack_depth\<close>: how deep \<open>ExpandArgument\<close> can recurse. \<open>cwd\<close>:
  the result of \<open>getcwd\<close>.
\<close>

datatype probe = CloneFails | WaitpidFails | ProbeOk

record env =
  posixly_correct :: bool
  namespaces :: probe
  indeterminate :: bool
  arg_files :: "string \<Rightarrow> (string list \<times> bool) option"
  stack_depth :: nat
  cwd :: string

subsection \<open>Argument Expander\<close>

text \<open>
  \<open>ExpandArgument\<close> (lines 240 to 264). The recursion has no bound in the source; here
  it is bounded by the depth of the stack, and deeper recursion ends in
  \<open>StackExhausted\<close>. A line of an argument file is a \<open>std::string\<close> and may hold NUL
  bytes; line 251 tests its length, and line 252 passes on \<open>strdup(line.c_str())\<close>, the
  line up to its first NUL byte. The lines read before a read error are expanded before
  \<open>f.bad()\<close> is tested.
\<close>

definition c_str :: "string \<Rightarrow> string" where
  "c_str s = takeWhile (\<lambda>c. c \<noteq> CHR 0x00) s"

fun ExpandArgument ::
    "nat \<Rightarrow> (string \<Rightarrow> (string list \<times> bool) option) \<Rightarrow> string list \<Rightarrow> string
      \<Rightarrow> failure + string list"
  and ExpandLines ::
    "nat \<Rightarrow> (string \<Rightarrow> (string list \<times> bool) option) \<Rightarrow> string list \<Rightarrow> string list
      \<Rightarrow> failure + string list" where
  "ExpandArgument depth files expanded arg =
     (case arg of
        [] \<Rightarrow> Inr (expanded @ [arg])
      | c # filename \<Rightarrow>
          if c = CHR ''@'' then
            (case depth of
               0 \<Rightarrow> Inl StackExhausted
             | Suc d \<Rightarrow>
                 (case files filename of
                    None \<Rightarrow> Inl (Die (''opening argument file '' @ filename @ '' failed''))
                  | Some (lines, bad) \<Rightarrow>
                      (case ExpandLines d files expanded lines of
                         Inl e \<Rightarrow> Inl e
                       | Inr expanded' \<Rightarrow>
                           if bad then
                             Inl (Die (''error while reading from argument file '' @ filename))
                           else Inr expanded')))
          else Inr (expanded @ [arg]))"
| "ExpandLines d files expanded [] = Inr expanded"
| "ExpandLines d files expanded (line # lines) =
     (if length line > 0 then
        (case ExpandArgument d files expanded (c_str line) of
           Inl e \<Rightarrow> Inl e
         | Inr expanded' \<Rightarrow> ExpandLines d files expanded' lines)
      else ExpandLines d files expanded lines)"

text \<open>\<open>ExpandArguments\<close> (lines 269 to 281): the loop, and the function that starts it.\<close>

fun ExpandArguments_from ::
    "nat \<Rightarrow> (string \<Rightarrow> (string list \<times> bool) option) \<Rightarrow> string list \<Rightarrow> string list
      \<Rightarrow> failure + string list" where
  "ExpandArguments_from depth files expanded [] = Inr expanded"
| "ExpandArguments_from depth files expanded (arg # rest) =
     (if arg \<noteq> ''--'' then
        (case ExpandArgument depth files expanded arg of
           Inl e \<Rightarrow> Inl e
         | Inr expanded' \<Rightarrow> ExpandArguments_from depth files expanded' rest)
      else Inr (expanded @ arg # rest))"

definition ExpandArguments :: "env \<Rightarrow> string list \<Rightarrow> failure + string list" where
  "ExpandArguments e argv = ExpandArguments_from (stack_depth e) (arg_files e) [] argv"

subsection \<open>The C library: \<open>getopt\<close> and \<open>sscanf\<close>\<close>

text \<open>
  \<open>getopt\<close> for short options. Its state is the rest of the group of letters being read
  (\<open>nextchar\<close>), the arguments from the next unread one on (\<open>unread\<close>, the tail of \<open>argv\<close> at
  \<open>optind\<close>), and the non-options passed over so far (\<open>skipped\<close>), which GNU \<open>getopt\<close> moves
  behind the options. A result is the letter \<open>c\<close> (with \<open>optarg\<close>), \<open>'?'\<close> or \<open>':'\<close> (with
  \<open>optopt\<close>), or -1.
\<close>

record getopt_state =
  nextchar :: string
  unread :: "string list"
  skipped :: "string list"

datatype getopt_result =
    Flag char
  | FlagArg char string
  | UnknownFlag char
  | MissingArg char
  | NoMoreOptions

text \<open>Whether a letter is in the option string, and whether a colon follows it.\<close>

fun optstring_lookup :: "char \<Rightarrow> string \<Rightarrow> bool option" where
  "optstring_lookup c [] = None"
| "optstring_lookup c [x] = (if x = c then Some False else None)"
| "optstring_lookup c (x # y # r) =
     (if x = c then Some (y = CHR '':'') else optstring_lookup c (y # r))"

text \<open>
  The next group of option letters: a token that starts with \<open>-\<close> and has more than one
  character, other than \<open>--\<close>. \<open>Inr\<close> is the end of the options, with the arguments that
  are left for the caller from \<open>optind\<close> on.
\<close>

fun next_group ::
    "bool \<Rightarrow> string list \<Rightarrow> string list \<Rightarrow> (string \<times> string list \<times> string list) + string list" where
  "next_group posix passed [] = Inr passed"
| "next_group posix passed (tok # rest) =
     (if tok = ''--'' then Inr (passed @ rest)
      else if length tok \<ge> 2 \<and> hd tok = CHR ''-'' then Inl (tl tok, rest, passed)
      else if posix then Inr (passed @ tok # rest)
      else next_group posix (passed @ [tok]) rest)"

definition getopt :: "bool \<Rightarrow> string \<Rightarrow> getopt_state \<Rightarrow> getopt_result \<times> getopt_state" where
  "getopt posix opts st =
     (case (if nextchar st \<noteq> [] then Inl (nextchar st, unread st, skipped st)
            else next_group posix (skipped st) (unread st)) of
        Inr left \<Rightarrow> (NoMoreOptions, \<lparr>nextchar = [], unread = left, skipped = []\<rparr>)
      | Inl (letters, rest, passed) \<Rightarrow>
          (case letters of
             [] \<Rightarrow> (NoMoreOptions, \<lparr>nextchar = [], unread = passed @ rest, skipped = []\<rparr>)
           | c # cs \<Rightarrow>
               (case (if c = CHR '':'' \<or> c = CHR '';'' then None
                      else optstring_lookup c opts) of
                  None \<Rightarrow> (UnknownFlag c, \<lparr>nextchar = cs, unread = rest, skipped = passed\<rparr>)
                | Some False \<Rightarrow> (Flag c, \<lparr>nextchar = cs, unread = rest, skipped = passed\<rparr>)
                | Some True \<Rightarrow>
                    if cs \<noteq> [] then
                      (FlagArg c cs, \<lparr>nextchar = [], unread = rest, skipped = passed\<rparr>)
                    else
                      (case rest of
                         [] \<Rightarrow> (MissingArg c, \<lparr>nextchar = [], unread = [], skipped = passed\<rparr>)
                       | a # rest' \<Rightarrow>
                           (FlagArg c a,
                            \<lparr>nextchar = [], unread = rest', skipped = passed\<rparr>)))))"

text \<open>
  \<open>sscanf(s, "%d", &x)\<close>: white space is skipped, then an optional sign and the longest
  run of decimal digits are read; what follows the digits is not looked at. \<open>None\<close> when
  there is no digit to read (the call returns 0 or \<open>EOF\<close>, not 1), otherwise the number.
\<close>

definition isspace :: "char \<Rightarrow> bool" where
  "isspace c \<longleftrightarrow> c = CHR '' '' \<or> (9 \<le> (of_char c :: nat) \<and> (of_char c :: nat) \<le> 13)"

definition isdigit :: "char \<Rightarrow> bool" where
  "isdigit c \<longleftrightarrow> 48 \<le> (of_char c :: nat) \<and> (of_char c :: nat) \<le> 57"

definition decimal :: "string \<Rightarrow> int" where
  "decimal ds = foldl (\<lambda>a c. 10 * a + ((of_char c :: int) - 48)) 0 ds"

definition sscanf_d :: "string \<Rightarrow> int option" where
  "sscanf_d s =
     (let s1 = dropWhile isspace s;
          negative = (s1 \<noteq> [] \<and> hd s1 = CHR ''-'');
          s2 = (if s1 \<noteq> [] \<and> (hd s1 = CHR ''-'' \<or> hd s1 = CHR ''+'') then tl s1 else s1);
          ds = takeWhile isdigit s2
      in if ds = [] then None
         else Some (if negative then - decimal ds else decimal ds))"

text \<open>
  The number is stored in an \<open>int\<close>. The C standard leaves the behaviour undefined when
  the number read is not representable in the object.
\<close>

definition is_int :: "int \<Rightarrow> bool" where
  "is_int v \<longleftrightarrow> - (2 ^ 31) \<le> v \<and> v < 2 ^ 31"

subsection \<open>Sandbox Configuration Parser\<close>

text \<open>\<open>CheckNamespacesSupported\<close> (lines 89 to 111).\<close>

definition CheckNamespacesSupported :: "probe \<Rightarrow> failure + int" where
  "CheckNamespacesSupported p =
     (case p of
        CloneFails \<Rightarrow> Inl (Die ''pid'')
      | WaitpidFails \<Rightarrow> Inl (Die ''waitpid'')
      | ProbeOk \<Rightarrow> Inr 0)"

text \<open>\<open>ValidateIsAbsolutePath\<close> (lines 113 to 118); \<open>path[0]\<close> of the empty string is NUL.\<close>

definition ValidateIsAbsolutePath :: "string \<Rightarrow> char \<Rightarrow> failure + unit" where
  "ValidateIsAbsolutePath path flag =
     (if (case path of [] \<Rightarrow> True | c # _ \<Rightarrow> c \<noteq> CHR ''/'') then
        Inl (UsageError (NotAbsolute flag))
      else Inr ())"

text \<open>
  The body of the loop of \<open>ParseCommandLine\<close> (lines 130 to 226) for one result of
  \<open>getopt\<close>, on the options and \<open>source_specified\<close>. Line 130 comes first. \<open>pop_back\<close> on
  an empty vector (line 207) is undefined.
\<close>

definition letter :: "getopt_result \<Rightarrow> char" where
  "letter r =
     (case r of
        Flag c \<Rightarrow> c
      | FlagArg c a \<Rightarrow> c
      | UnknownFlag c \<Rightarrow> CHR ''?''
      | MissingArg c \<Rightarrow> CHR '':''
      | NoMoreOptions \<Rightarrow> CHR 0xFF)"

definition absolute :: "string \<Rightarrow> char \<Rightarrow> (failure + Options \<times> bool) \<Rightarrow> failure + Options \<times> bool" where
  "absolute path flag continue =
     (case ValidateIsAbsolutePath path flag of Inl e \<Rightarrow> Inl e | Inr _ \<Rightarrow> continue)"

definition ParseCommandLine_case ::
    "env \<Rightarrow> getopt_result \<Rightarrow> Options \<times> bool \<Rightarrow> failure + Options \<times> bool" where
  "ParseCommandLine_case e r s =
     (let opt = fst s;
          c = letter r;
          source_specified = (if c \<noteq> CHR ''M'' \<and> c \<noteq> CHR ''m'' then False else snd s)
      in case r of
        NoMoreOptions \<Rightarrow> Inr (opt, source_specified)
      | UnknownFlag optopt \<Rightarrow> Inl (UsageError (UnrecognizedArgument optopt))
      | MissingArg optopt \<Rightarrow> Inl (UsageError (MissingFlagArgument optopt))
      | Flag c \<Rightarrow>
          if c = CHR ''C'' then
            (case CheckNamespacesSupported (namespaces e) of
               Inl d \<Rightarrow> Inl d
             | Inr status \<Rightarrow> Inl (Exit status))
          else if c = CHR ''N'' then Inr (opt\<lparr>create_netns := True\<rparr>, source_specified)
          else if c = CHR ''R'' then Inr (opt\<lparr>fake_root := True\<rparr>, source_specified)
          else if c = CHR ''D'' then Inr (opt\<lparr>debug := True\<rparr>, source_specified)
          else Inr (opt, source_specified)
      | FlagArg c optarg \<Rightarrow>
          if c = CHR ''S'' then
            (if sandbox_root_dir opt = None then
               absolute optarg c (Inr (opt\<lparr>sandbox_root_dir := Some optarg\<rparr>, source_specified))
             else Inl (UsageError MultipleRootDirs))
          else if c = CHR ''W'' then
            (if working_dir opt = None then
               absolute optarg c (Inr (opt\<lparr>working_dir := Some optarg\<rparr>, source_specified))
             else Inl (UsageError MultipleWorkingDirs))
          else if c = CHR ''T'' then
            (case sscanf_d optarg of
               None \<Rightarrow> Inl (UsageError (InvalidTimeout optarg))
             | Some v \<Rightarrow>
                 if \<not> is_int v then Inl (Undefined ''sscanf: not representable'')
                 else if v < 0 then Inl (UsageError (InvalidTimeout optarg))
                 else Inr (opt\<lparr>timeout_secs := v\<rparr>, source_specified))
          else if c = CHR ''t'' then
            (case sscanf_d optarg of
               None \<Rightarrow> Inl (UsageError (InvalidKillDelay optarg))
             | Some v \<Rightarrow>
                 if \<not> is_int v then Inl (Undefined ''sscanf: not representable'')
                 else if v < 0 then Inl (UsageError (InvalidKillDelay optarg))
                 else Inr (opt\<lparr>kill_delay_secs := v\<rparr>, source_specified))
          else if c = CHR ''l'' then
            (if stdout_path opt = None then Inr (opt\<lparr>stdout_path := Some optarg\<rparr>, source_specified)
             else Inl (UsageError MultipleStdout))
          else if c = CHR ''L'' then
            (if stderr_path opt = None then Inr (opt\<lparr>stderr_path := Some optarg\<rparr>, source_specified)
             else Inl (UsageError MultipleStderr))
          else if c = CHR ''w'' then
            absolute optarg c
              (Inr (opt\<lparr>writable_files := writable_files opt @ [optarg]\<rparr>, source_specified))
          else if c = CHR ''i'' then
            absolute optarg c
              (Inr (opt\<lparr>inaccessible_files := inaccessible_files opt @ [optarg]\<rparr>,
                    source_specified))
          else if c = CHR ''e'' then
            absolute optarg c
              (Inr (opt\<lparr>tmpfs_dirs := tmpfs_dirs opt @ [optarg]\<rparr>, source_specified))
          else if c = CHR ''M'' then
            absolute optarg c
              (Inr (opt\<lparr>bind_mount_sources := bind_mount_sources opt @ [optarg],
                        bind_mount_targets := bind_mount_targets opt @ [optarg]\<rparr>, True))
          else if c = CHR ''m'' then
            absolute optarg c
              (if \<not> source_specified then Inl (UsageError TargetWithoutSource)
               else if bind_mount_targets opt = [] then
                 Inl (Undefined ''pop_back on an empty vector'')
               else
                 Inr (opt\<lparr>bind_mount_targets := butlast (bind_mount_targets opt) @ [optarg]\<rparr>,
                      False))
          else Inr (opt, source_specified))"

text \<open>The option string of line 129.\<close>

definition optstring :: string where
  "optstring = '':CS:W:T:t:l:L:w:i:e:M:m:NRD''"

text \<open>What is left to read; every call of \<open>getopt\<close> that finds an option makes it smaller.\<close>

definition to_read :: "getopt_state \<Rightarrow> nat" where
  "to_read st = length (nextchar st) + sum_list (map (\<lambda>t. Suc (length t)) (unread st))"

lemma next_group_to_read:
  "next_group posix passed ts = Inl (letters, rest, passed') \<Longrightarrow>
     length letters + sum_list (map (\<lambda>t. Suc (length t)) rest)
       < sum_list (map (\<lambda>t. Suc (length t)) ts)"
proof (induction ts arbitrary: passed)
  case Nil
  then show ?case by simp
next
  case (Cons tok ts)
  then show ?case
    by (cases tok) (fastforce split: if_splits)+
qed

lemma getopt_to_read:
  assumes "getopt posix os st = (r, st')" and "r \<noteq> NoMoreOptions"
  shows "to_read st' < to_read st"
proof (cases "nextchar st")
  case Nil
  then show ?thesis
    using assms next_group_to_read [of posix "skipped st" "unread st"]
    by (fastforce simp: getopt_def to_read_def
          split: sum.splits list.splits option.splits bool.splits if_splits)
next
  case (Cons c cs)
  then show ?thesis
    using assms
    by (auto simp: getopt_def to_read_def
          split: list.splits option.splits bool.splits if_splits)
qed

text \<open>
  \<open>ParseCommandLine\<close> (lines 122 to 236): the loop over the results of \<open>getopt\<close>, then
  lines 229 to 235. The first element of the expanded arguments is the program name.
\<close>

function ParseCommandLine_loop ::
    "env \<Rightarrow> getopt_state \<Rightarrow> Options \<times> bool \<Rightarrow> failure + Options \<times> string list" where
  "ParseCommandLine_loop e st s =
     (case getopt (posixly_correct e) optstring st of
        (r, st') \<Rightarrow>
          if r = NoMoreOptions then Inr (fst s, unread st')
          else
            (case ParseCommandLine_case e r s of
               Inl d \<Rightarrow> Inl d
             | Inr s' \<Rightarrow> ParseCommandLine_loop e st' s'))"
  by pat_completeness auto
termination
  by (relation "measure (\<lambda>(e, st, s). to_read st)") (auto intro: getopt_to_read [OF sym])

declare ParseCommandLine_loop.simps [simp del]

definition ParseCommandLine :: "env \<Rightarrow> string list \<Rightarrow> Options \<Rightarrow> failure + Options" where
  "ParseCommandLine e expanded opt =
     (case ParseCommandLine_loop e \<lparr>nextchar = [], unread = tl expanded, skipped = []\<rparr>
             (opt, indeterminate e) of
        Inl d \<Rightarrow> Inl d
      | Inr (opt', left) \<Rightarrow>
          if left \<noteq> [] then
            (if args opt' = [] then Inr (opt'\<lparr>args := left\<rparr>)
             else Inl (UsageError MergingCommands))
          else Inr opt')"

text \<open>\<open>ParseOptions\<close> (lines 284 to 297).\<close>

definition ParseOptions :: "env \<Rightarrow> string list \<Rightarrow> failure + Options" where
  "ParseOptions e argv =
     (case ExpandArguments e argv of
        Inl d \<Rightarrow> Inl d
      | Inr expanded \<Rightarrow>
          (case ParseCommandLine e expanded initial_opt of
             Inl d \<Rightarrow> Inl d
           | Inr opt \<Rightarrow>
               if args opt = [] then Inl (UsageError NoCommand)
               else
                 Inr (opt\<lparr>tmpfs_dirs := tmpfs_dirs opt @ [''/tmp''],
                          working_dir :=
                            (case working_dir opt of None \<Rightarrow> Some (cwd e) | Some d \<Rightarrow> Some d)\<rparr>)))"

section \<open>The specification's own descriptions, for comparison with the code\<close>



text \<open>
  The results of the successive calls of \<open>getopt\<close> on an argument list, up to the one
  that returns -1: the options as the parser sees them.
\<close>

function getopt_results :: "bool \<Rightarrow> getopt_state \<Rightarrow> getopt_result list" where
  "getopt_results posix st =
     (case getopt posix optstring st of
        (r, st') \<Rightarrow> if r = NoMoreOptions then [] else r # getopt_results posix st')"
  by pat_completeness auto
termination
  by (relation "measure (\<lambda>(posix, st). to_read st)") (auto intro: getopt_to_read [OF sym])

declare getopt_results.simps [simp del]

text \<open>
  Bind-mount pairing as the specification words it (sections 4.3 and 9): a machine with
  the list of pairs and the fact whether a pair is open. \<open>-M s\<close> appends the pair
  \<open>(s, s)\<close> and opens it; \<open>-m t\<close> is valid only with an open pair, replaces the target of
  the last pair and closes it; any other option closes the open pair.
\<close>

definition spec_pair_step ::
    "(string \<times> string) list \<times> bool \<Rightarrow> getopt_result \<Rightarrow> ((string \<times> string) list \<times> bool) option" where
  "spec_pair_step s r =
     (case r of
        FlagArg c a \<Rightarrow>
          if c = CHR ''M'' then Some (fst s @ [(a, a)], True)
          else if c = CHR ''m'' then
            (if snd s \<and> fst s \<noteq> [] then Some (butlast (fst s) @ [(fst (last (fst s)), a)], False)
             else None)
          else Some (fst s, False)
      | _ \<Rightarrow> Some (fst s, False))"

fun spec_pairs ::
    "(string \<times> string) list \<times> bool \<Rightarrow> getopt_result list \<Rightarrow> (string \<times> string) list option" where
  "spec_pairs s [] = Some (fst s)"
| "spec_pairs s (r # rs) =
     (case spec_pair_step s r of
        None \<Rightarrow> None
      | Some s' \<Rightarrow> spec_pairs s' rs)"

text \<open>A non-negative decimal integer, as a string: digits only, and at least one.\<close>

definition nonneg_decimal :: "string \<Rightarrow> bool" where
  "nonneg_decimal s \<longleftrightarrow> s \<noteq> [] \<and> list_all isdigit s"

text \<open>The bind mounts of a configuration: the sources paired with the targets.\<close>

definition bind_mounts :: "Options \<Rightarrow> (string \<times> string) list" where
  "bind_mounts opt = zip (bind_mount_sources opt) (bind_mount_targets opt)"

section \<open>A small in-memory kernel for the examples\<close>

text \<open>
  One concrete kernel, used only to run the functions on explicit inputs: a table from
  paths to nodes, without symbolic links (so \<open>lstat\<close> is \<open>stat\<close>), with one user creating
  every new node and at most one open descriptor, number 3.
\<close>

record node =
  n_mode :: mode_t
  n_uid :: uid_t
  n_mtime :: time_t
  n_data :: string

record memfs =
  nodes :: "(string \<times> node) list"
  creator :: uid_t
  opened :: "string option"

definition node_stat :: "node \<Rightarrow> struct_stat" where
  "node_stat n = \<lparr>st_mode = n_mode n, st_uid = n_uid n, st_mtime = n_mtime n\<rparr>"

definition set_node :: "string \<Rightarrow> node \<Rightarrow> memfs \<Rightarrow> memfs" where
  "set_node p n k = k\<lparr>nodes := (p, n) # filter (\<lambda>e. fst e \<noteq> p) (nodes k)\<rparr>"

definition memfs_stat :: "memfs \<Rightarrow> string \<Rightarrow> int + struct_stat" where
  "memfs_stat k p = (case map_of (nodes k) p of None \<Rightarrow> Inl ENOENT | Some n \<Rightarrow> Inr (node_stat n))"

definition memfs_chmod :: "memfs \<Rightarrow> string \<Rightarrow> mode_t \<Rightarrow> int + memfs" where
  "memfs_chmod k p m =
     (case map_of (nodes k) p of
        None \<Rightarrow> Inl ENOENT
      | Some n \<Rightarrow> Inr (set_node p (n\<lparr>n_mode := (n_mode n AND 0xF000) OR (m AND 0xFFF)\<rparr>) k))"

definition memfs_mkdir :: "memfs \<Rightarrow> 9 word \<Rightarrow> string \<Rightarrow> mode_t \<Rightarrow> int + memfs" where
  "memfs_mkdir k um p m =
     (case map_of (nodes k) p of
        Some n \<Rightarrow> Inl EEXIST
      | None \<Rightarrow>
          Inr (set_node p \<lparr>n_mode = 0x4000 OR (m AND NOT (ucast um) AND 511), n_uid = creator k,
                            n_mtime = 0, n_data = []\<rparr> k))"

definition memfs_unlink :: "memfs \<Rightarrow> string \<Rightarrow> int + memfs" where
  "memfs_unlink k p =
     (case map_of (nodes k) p of
        None \<Rightarrow> Inl ENOENT
      | Some n \<Rightarrow> Inr (k\<lparr>nodes := filter (\<lambda>e. fst e \<noteq> p) (nodes k)\<rparr>))"

definition memfs_open :: "memfs \<Rightarrow> 9 word \<Rightarrow> string \<Rightarrow> int + memfs \<times> int" where
  "memfs_open k um p =
     (let n = (case map_of (nodes k) p of
                 None \<Rightarrow> \<lparr>n_mode = 0x8000 OR (493 AND NOT (ucast um)), n_uid = creator k,
                            n_mtime = 0, n_data = []\<rparr>
               | Some n \<Rightarrow> n\<lparr>n_data := []\<rparr>)
      in Inr ((set_node p n k)\<lparr>opened := Some p\<rparr>, 3))"

definition memfs_write :: "memfs \<Rightarrow> int \<Rightarrow> string \<Rightarrow> int + memfs \<times> nat" where
  "memfs_write k fd buf =
     (case (if fd = 3 then opened k else None) of
        None \<Rightarrow> Inl 9
      | Some p \<Rightarrow>
          (case map_of (nodes k) p of
             None \<Rightarrow> Inl 9
           | Some n \<Rightarrow> Inr (set_node p (n\<lparr>n_data := n_data n @ buf\<rparr>) k, length buf)))"

definition memfs_close :: "memfs \<Rightarrow> int \<Rightarrow> memfs \<times> int option" where
  "memfs_close k fd =
     (if fd = 3 \<and> opened k \<noteq> None then (k\<lparr>opened := None\<rparr>, None) else (k, Some 9))"

definition memfs_utime :: "memfs \<Rightarrow> string \<Rightarrow> utimbuf \<Rightarrow> int + memfs" where
  "memfs_utime k p t =
     (case map_of (nodes k) p of
        None \<Rightarrow> Inl ENOENT
      | Some n \<Rightarrow> Inr (set_node p (n\<lparr>n_mtime := modtime t\<rparr>) k))"

definition memfs_os :: "memfs os" where
  "memfs_os =
     \<lparr>os_stat = memfs_stat, os_lstat = memfs_stat, os_chmod = memfs_chmod,
      os_mkdir = memfs_mkdir, os_unlink = memfs_unlink, os_open = memfs_open,
      os_write = memfs_write, os_close = memfs_close, os_utime = memfs_utime\<rparr>"

text \<open>
  The example state: user 1000 with umask 022; \<open>/srv\<close> is a directory of mode 0755 owned by
  root, \<open>/home/me\<close> one of mode 0700 owned by the user, \<open>/home/me/out\<close> a regular file of
  mode 0755 holding \<open>old\<close>.
\<close>

definition example_kernel :: memfs where
  "example_kernel =
     \<lparr>nodes =
        [(''/srv'', \<lparr>n_mode = 0x41ED, n_uid = 0, n_mtime = 1000, n_data = []\<rparr>),
         (''/home/me'', \<lparr>n_mode = 0x41C0, n_uid = 1000, n_mtime = 1000, n_data = []\<rparr>),
         (''/home/me/out'', \<lparr>n_mode = 0x81ED, n_uid = 1000, n_mtime = 1000, n_data = ''old''\<rparr>)],
      creator = 1000, opened = None\<rparr>"

definition example_proc :: "memfs proc" where
  "example_proc = \<lparr>kernel = example_kernel, errno = 0, euid = 1000, cur_umask = 18, trace = []\<rparr>"

text \<open>
  Three variants of that kernel. On a file system mounted read-only, \<open>unlink\<close> and
  \<open>open\<close> for writing fail with \<open>EROFS\<close>. A process that has used up its descriptors gets
  \<open>EMFILE\<close> from \<open>open\<close>. A full network file system fails \<open>write\<close> with \<open>ENOSPC\<close> and
  then \<open>close\<close> with \<open>EIO\<close>.
\<close>

definition readonly_os :: "memfs os" where
  "readonly_os = memfs_os\<lparr>os_unlink := \<lambda>k p. Inl EROFS, os_open := \<lambda>k um p. Inl EROFS\<rparr>"

definition EMFILE :: int where "EMFILE = 24"

definition no_descriptors_os :: "memfs os" where
  "no_descriptors_os = memfs_os\<lparr>os_open := \<lambda>k um p. Inl EMFILE\<rparr>"

definition full_nfs_os :: "memfs os" where
  "full_nfs_os =
     memfs_os\<lparr>os_write := \<lambda>k fd buf. Inl ENOSPC,
              os_close := \<lambda>k fd. (k\<lparr>opened := None\<rparr>, Some EIO)\<rparr>"

text \<open>
  The example environment of the sandbox tool: GNU \<open>getopt\<close>, a kernel with namespaces,
  \<open>source_specified\<close> found false, and two argument files: \<open>f\<close> with the lines \<open>a\<close>, \<open>b\<close>,
  an empty line, \<open>@g\<close> and \<open>c\<close>, and \<open>g\<close> with the lines \<open>-N\<close> and \<open>-D\<close>.
\<close>

definition example_files :: "string \<Rightarrow> (string list \<times> bool) option" where
  "example_files name =
     (if name = ''f'' then Some ([''a'', ''b'', [], ''@g'', ''c''], False)
      else if name = ''g'' then Some ([''-N'', ''-D''], False)
      else None)"

definition example_env :: env where
  "example_env =
     \<lparr>posixly_correct = False, namespaces = ProbeOk, indeterminate = False,
      arg_files = example_files, stack_depth = 8, cwd = ''/work''\<rparr>"


section \<open>Properties of the Directory Materializer\<close>

lemma ucast_umask_roundtrip: "(ucast (ucast (m :: 9 word) :: 32 word) :: 9 word) = m"
  by (simp add: ucast_up_ucast_id is_up)

lemma GetDirectoryStat_umask:
  "cur_umask (snd (GetDirectoryStat os w path mode check_perms)) = cur_umask w"
  by (simp add: GetDirectoryStat_def sys_stat_def sys_lstat_def sys_geteuid_def sys_umask_def
        sys_chmod_def logged_def ucast_umask_roundtrip Let_def
      split: sum.splits prod.splits option.splits bool.splits)

lemma sys_mkdir_umask: "cur_umask (snd (sys_mkdir os path m w)) = cur_umask w"
  by (simp add: sys_mkdir_def logged_def split: sum.splits)

lemma MakeDirectories_umask:
  "cur_umask (snd (MakeDirectories os w path mode childmost)) = cur_umask w"
proof (induction os w path mode childmost rule: MakeDirectories.induct)
  case (1 os w path mode childmost)
  show ?case
  proof (cases "path = [] \<or> IsRootDirectory path")
    case True
    then show ?thesis by (subst MakeDirectories.simps) simp
  next
    case nontrivial: False
    obtain ok w1 where g: "GetDirectoryStat os w path mode childmost = (ok, w1)"
      by (cases "GetDirectoryStat os w path mode childmost")
    have w1: "cur_umask w1 = cur_umask w"
      using GetDirectoryStat_umask [of os w path mode childmost] g by simp
    show ?thesis
    proof (cases "\<not> ok \<and> errno w1 = ENOENT")
      case False
      with nontrivial g w1 show ?thesis
        by (subst MakeDirectories.simps) (auto split: bool.splits)
    next
      case True
      then have ok: "ok = False" and en: "errno w1 = ENOENT" by simp_all
      obtain ok2 w2 where r: "MakeDirectories os w1 (Dirname path) mode False = (ok2, w2)"
        by (cases "MakeDirectories os w1 (Dirname path) mode False")
      have w2: "cur_umask w2 = cur_umask w"
        using "1.IH" [OF nontrivial g [symmetric] ok en] r w1 by simp
      obtain ok3 w3 where m: "sys_mkdir os path mode w2 = (ok3, w3)"
        by (cases "sys_mkdir os path mode w2")
      have w3: "cur_umask w3 = cur_umask w"
        using sys_mkdir_umask [of os path mode w2] m w2 by simp
      from nontrivial g ok en r m w2 w3 show ?thesis
        by (subst MakeDirectories.simps)
           (simp add: GetDirectoryStat_umask split: bool.splits)
    qed
  qed
qed

text \<open>
  Claim C1. When \<open>stat\<close> reports a directory at the path and \<open>lstat\<close> reports an owner
  other than the effective user, \<open>MakeDirectories\<close> with \<open>childmost = true\<close> returns false
  with \<open>errno = EACCES\<close>. The state it returns is the state on entry but for \<open>errno\<close> and
  the log: the kernel state and the umask are untouched, and the calls made are \<open>stat\<close>,
  \<open>lstat\<close> and \<open>geteuid\<close> only (none at all for the root path, which is rejected before
  any call), so neither \<open>umask\<close> nor \<open>chmod\<close> nor \<open>mkdir\<close> runs after the failed owner check.
\<close>

theorem MakeDirectories_foreign_owner:
  assumes "os_stat os (kernel w) path = Inr filestat"
    and "S_ISDIR (st_mode filestat)"
    and "os_lstat os (kernel w) path = Inr linkstat"
    and "st_uid linkstat \<noteq> euid w"
  shows "MakeDirectories os w path mode True =
      (False, w\<lparr>errno := EACCES,
                trace := trace w @ (if path = [] \<or> IsRootDirectory path then []
                                     else [SysStat path, SysLstat path, SysGeteuid])\<rparr>)"
proof -
  have g: "GetDirectoryStat os w path mode True =
     (False, w\<lparr>errno := EACCES, trace := trace w @ [SysStat path, SysLstat path, SysGeteuid]\<rparr>)"
    using assms
    by (simp add: GetDirectoryStat_def sys_stat_def sys_lstat_def sys_geteuid_def logged_def)
  show ?thesis
    by (subst MakeDirectories.simps) (simp add: g EACCES_def ENOENT_def)
qed

theorem MakeDirectories_foreign_owner_witness:
  "os_stat memfs_os (kernel example_proc) ''/srv''
     = Inr \<lparr>st_mode = 0x41ED, st_uid = 0, st_mtime = 1000\<rparr>
   \<and> S_ISDIR 0x41ED
   \<and> os_lstat memfs_os (kernel example_proc) ''/srv''
     = Inr \<lparr>st_mode = 0x41ED, st_uid = 0, st_mtime = 1000\<rparr>
   \<and> (0 :: uid_t) \<noteq> euid example_proc
   \<and> MakeDirectories memfs_os example_proc ''/srv'' 493 True =
       (False, example_proc\<lparr>errno := EACCES,
                 trace := [SysStat ''/srv'', SysLstat ''/srv'', SysGeteuid]\<rparr>)"
proof -
  have s: "os_stat memfs_os (kernel example_proc) ''/srv''
      = Inr \<lparr>st_mode = 0x41ED, st_uid = 0, st_mtime = 1000\<rparr>"
    and l: "os_lstat memfs_os (kernel example_proc) ''/srv''
      = Inr \<lparr>st_mode = 0x41ED, st_uid = 0, st_mtime = 1000\<rparr>"
    by (simp_all add: memfs_os_def memfs_stat_def example_proc_def example_kernel_def
          node_stat_def)
  have d: "S_ISDIR (st_mode \<lparr>st_mode = 0x41ED, st_uid = 0, st_mtime = 1000\<rparr>)"
    by (simp add: S_ISDIR_def)
  have u: "st_uid \<lparr>st_mode = 0x41ED, st_uid = 0, st_mtime = 1000\<rparr> \<noteq> euid example_proc"
    by (simp add: example_proc_def)
  have t: "trace example_proc = []"
    by (simp add: example_proc_def)
  show ?thesis
    using MakeDirectories_foreign_owner [OF s d l u, of 493] s l d u
    by (simp add: IsRootDirectory_def t)
qed

text \<open>
  Claim C9. \<open>GetDirectoryStat\<close> leaves the umask as it found it, and so does every call of
  \<open>MakeDirectories\<close>. Where \<open>GetDirectoryStat\<close> calls \<open>umask\<close> at all, it calls it exactly
  twice in a row: with the probe value 022, then with the mask that the first call
  returned.
\<close>

theorem umask_unchanged:
  "cur_umask (snd (GetDirectoryStat os w path mode check_perms)) = cur_umask w
   \<and> cur_umask (snd (MakeDirectories os w path mode childmost)) = cur_umask w
   \<and> (umask_calls (length (trace w))
          (trace (snd (GetDirectoryStat os w path mode check_perms))) = []
      \<or> umask_calls (length (trace w))
          (trace (snd (GetDirectoryStat os w path mode check_perms)))
        = [SysUmask 18, SysUmask (ucast (cur_umask w))])"
proof -
  have "umask_calls (length (trace w))
          (trace (snd (GetDirectoryStat os w path mode check_perms))) = []
      \<or> umask_calls (length (trace w))
          (trace (snd (GetDirectoryStat os w path mode check_perms)))
        = [SysUmask 18, SysUmask (ucast (cur_umask w))]"
    by (simp add: umask_calls_def GetDirectoryStat_def sys_stat_def sys_lstat_def
          sys_geteuid_def sys_umask_def sys_chmod_def logged_def Let_def
        split: sum.splits prod.splits option.splits bool.splits)
  then show ?thesis
    using GetDirectoryStat_umask [of os w path mode check_perms]
      MakeDirectories_umask [of os w path mode childmost]
    by blast
qed

text \<open>
  Claim C10. \<open>MakeDirectories\<close> terminates on every path: every argument tuple is in the
  domain of the recursion. The reason is the one the claim gives: the empty path and the
  root are rejected at once, and the parent of any other path is strictly shorter.
\<close>

theorem MakeDirectories_terminates:
  "MakeDirectories_dom (os, w, path, mode, childmost)
   \<and> (path = [] \<or> IsRootDirectory path \<longrightarrow>
        MakeDirectories os w path mode childmost = (False, w\<lparr>errno := EACCES\<rparr>))
   \<and> (path \<noteq> [] \<and> \<not> IsRootDirectory path \<longrightarrow> length (Dirname path) < length path)"
proof -
  have "MakeDirectories_dom (os, w, path, mode, childmost)"
    by (induction os w path mode childmost rule: MakeDirectories.induct)
       (rule MakeDirectories.domintros, simp)
  moreover have "path = [] \<or> IsRootDirectory path \<longrightarrow>
      MakeDirectories os w path mode childmost = (False, w\<lparr>errno := EACCES\<rparr>)"
    by (subst MakeDirectories.simps) simp
  ultimately show ?thesis
    using Dirname_shorter [of path] by blast
qed

theorem MakeDirectories_terminates_witness:
  "MakeDirectories_dom (memfs_os, example_proc, ''/home/me/a'', 493, True)
   \<and> IsRootDirectory ''/''
   \<and> MakeDirectories memfs_os example_proc ''/'' 493 True
       = (False, example_proc\<lparr>errno := EACCES\<rparr>)
   \<and> ''/home/me/a'' \<noteq> [] \<and> \<not> IsRootDirectory ''/home/me/a''
   \<and> Dirname ''/home/me/a'' = ''/home/me''
   \<and> length (Dirname ''/home/me/a'') < length ''/home/me/a''"
proof -
  have r: "IsRootDirectory ''/''" and n: "\<not> IsRootDirectory ''/home/me/a''"
    by (simp_all add: IsRootDirectory_def)
  have d: "Dirname ''/home/me/a'' = ''/home/me''"
    by (simp add: Dirname_def SplitPath_def)
  show ?thesis
    using MakeDirectories_terminates [of memfs_os example_proc "''/home/me/a''" 493 True]
      MakeDirectories_terminates [of memfs_os example_proc "''/''" 493 True] r n d
    by simp
qed

section \<open>Properties of the Atomic File Writer\<close>

lemma sys_unlink_trace: "trace (snd (sys_unlink os p w)) = trace w @ [SysUnlink p]"
  by (simp add: sys_unlink_def logged_def split: sum.splits)

lemma sys_open_trace: "trace (snd (sys_open os p w)) = trace w @ [SysOpen p]"
  by (simp add: sys_open_def logged_def split: sum.splits prod.splits)

lemma WriteTo_trace:
  "trace (snd (WriteTo (sys_write os fd) w buf)) = trace w @ [SysWrite fd (length buf)]"
  by (simp add: WriteTo_def sys_write_def logged_def split: sum.splits prod.splits)

lemma sys_close_trace: "trace (snd (sys_close os fd w)) = trace w @ [SysClose fd]"
  by (simp add: sys_close_def logged_def split: option.splits prod.splits)

lemma WriteFile_failed_close:
  assumes "sys_open os filename (snd (UnlinkPath os w filename)) = (Some fd, w2)"
    and "os_write os (kernel w2) fd buf = Inl e1"
    and "os_close os (kernel w2) fd = (k4, Some e2)"
  shows "fst (WriteFile os w buf filename) = False"
    and "errno (snd (WriteTo (sys_write os fd) w2 buf)) = e1"
    and "errno (snd (WriteFile os w buf filename)) = e2"
proof -
  obtain r1 w1 where u: "UnlinkPath os w filename = (r1, w1)"
    by (cases "UnlinkPath os w filename")
  with assms(1) have o: "sys_open os filename w1 = (Some fd, w2)" by simp
  have wr: "WriteTo (sys_write os fd) w2 buf
      = (False, (logged (SysWrite fd (length buf)) w2)\<lparr>errno := e1\<rparr>)"
    using assms(2) by (simp add: WriteTo_def sys_write_def)
  then show "errno (snd (WriteTo (sys_write os fd) w2 buf)) = e1" by simp
  have cl: "sys_close os fd ((logged (SysWrite fd (length buf)) w2)\<lparr>errno := e1\<rparr>)
      = (False, (logged (SysClose fd) ((logged (SysWrite fd (length buf)) w2)\<lparr>errno := e1\<rparr>))
                  \<lparr>kernel := k4, errno := e2\<rparr>)"
    using assms(3) by (simp add: sys_close_def logged_def)
  from u o wr cl show "fst (WriteFile os w buf filename) = False"
    and "errno (snd (WriteFile os w buf filename)) = e2"
    by (simp_all add: WriteFile_def)
qed

text \<open>
  Claim C3, evaluated where the code departs from it. On a full network file system
  \<open>write\<close> fails with \<open>ENOSPC\<close> and \<open>close\<close> then fails with \<open>EIO\<close>. \<open>WriteFile\<close> returns false
  with \<open>errno = EIO\<close>, the error of \<open>close\<close>: the error of the write phase is lost, because
  the function returns at line 205 before \<open>saved_errno\<close> is stored back at line 207.
\<close>

theorem WriteFile_reports_errno_of_close:
  "(\<forall>k. os_write full_nfs_os k 3 ''new'' = Inl ENOSPC)
   \<and> (\<forall>k. snd (os_close full_nfs_os k 3) = Some EIO)
   \<and> fst (WriteFile full_nfs_os example_proc ''new'' ''/home/me/out'') = False
   \<and> errno (snd (WriteFile full_nfs_os example_proc ''new'' ''/home/me/out'')) = EIO
   \<and> trace (snd (WriteFile full_nfs_os example_proc ''new'' ''/home/me/out''))
       = [SysUnlink ''/home/me/out'', SysOpen ''/home/me/out'', SysWrite 3 3, SysClose 3]
   \<and> EIO \<noteq> ENOSPC"
  by (simp add: WriteFile_def UnlinkPath_def WriteTo_def sys_unlink_def sys_open_def
        sys_write_def sys_close_def logged_def full_nfs_os_def memfs_os_def memfs_unlink_def
        memfs_open_def set_node_def example_proc_def example_kernel_def EIO_def ENOSPC_def)

text \<open>
  Claim C8 as stated fails where \<open>unlink\<close> itself fails: on a file system mounted
  read-only \<open>WriteFile\<close> returns false and the file is still there, with its content.
\<close>

theorem WriteFile_readonly_keeps_file:
  "fst (WriteFile readonly_os example_proc ''new'' ''/home/me/out'') = False
   \<and> map_of (nodes (kernel (snd (WriteFile readonly_os example_proc ''new'' ''/home/me/out''))))
        ''/home/me/out''
       = Some \<lparr>n_mode = 0x81ED, n_uid = 1000, n_mtime = 1000, n_data = ''old''\<rparr>"
  by (simp add: WriteFile_def UnlinkPath_def sys_unlink_def sys_open_def logged_def
        readonly_os_def memfs_os_def example_proc_def example_kernel_def)

text \<open>
  Claim C8, amended. The first two calls of \<open>WriteFile\<close> are always \<open>unlink\<close> and then
  \<open>open\<close> on the destination, whatever \<open>unlink\<close> returns. When that \<open>unlink\<close> succeeds and
  the \<open>open\<close> fails, \<open>WriteFile\<close> returns false and the kernel state is the one \<open>unlink\<close>
  left: the previous file has been removed and nothing has been put in its place.
\<close>

theorem WriteFile_unlinks_before_open:
  "take 2 (drop (length (trace w)) (trace (snd (WriteFile os w buf filename))))
     = [SysUnlink filename, SysOpen filename]
   \<and> (os_unlink os (kernel w) filename = Inr k1
        \<and> os_open os k1 (cur_umask w) filename = Inl e \<longrightarrow>
      WriteFile os w buf filename
        = (False, w\<lparr>kernel := k1, errno := e,
                    trace := trace w @ [SysUnlink filename, SysOpen filename]\<rparr>))"
proof -
  have "take 2 (drop (length (trace w)) (trace (snd (WriteFile os w buf filename))))
      = [SysUnlink filename, SysOpen filename]"
  proof -
    obtain r1 w1 where u: "UnlinkPath os w filename = (r1, w1)"
      by (cases "UnlinkPath os w filename")
    obtain r2 w2 where o: "sys_open os filename w1 = (r2, w2)"
      by (cases "sys_open os filename w1")
    have t2: "trace w2 = trace w @ [SysUnlink filename, SysOpen filename]"
      using sys_unlink_trace [of os filename w] sys_open_trace [of os filename w1] u o
      by (simp add: UnlinkPath_def)
    show ?thesis
    proof (cases r2)
      case None
      with u o t2 show ?thesis by (simp add: WriteFile_def)
    next
      case (Some fd)
      obtain r3 w3 where wr: "WriteTo (sys_write os fd) w2 buf = (r3, w3)"
        by (cases "WriteTo (sys_write os fd) w2 buf")
      obtain r4 w4 where cl: "sys_close os fd w3 = (r4, w4)"
        by (cases "sys_close os fd w3")
      have t4: "trace w4 = trace w @ [SysUnlink filename, SysOpen filename,
          SysWrite fd (length buf), SysClose fd]"
        using WriteTo_trace [of os fd w2 buf] sys_close_trace [of os fd w3] wr cl t2
        by simp
      from u o Some wr cl t4 show ?thesis
        by (cases r4) (simp_all add: WriteFile_def)
    qed
  qed
  moreover have "os_unlink os (kernel w) filename = Inr k1
        \<and> os_open os k1 (cur_umask w) filename = Inl e \<longrightarrow>
      WriteFile os w buf filename
        = (False, w\<lparr>kernel := k1, errno := e,
                    trace := trace w @ [SysUnlink filename, SysOpen filename]\<rparr>)"
    by (simp add: WriteFile_def UnlinkPath_def sys_unlink_def sys_open_def logged_def)
  ultimately show ?thesis by blast
qed

theorem WriteFile_unlinks_before_open_witness:
  "os_unlink no_descriptors_os (kernel example_proc) ''/home/me/out''
     = Inr (example_kernel\<lparr>nodes := take 2 (nodes example_kernel)\<rparr>)
   \<and> os_open no_descriptors_os (example_kernel\<lparr>nodes := take 2 (nodes example_kernel)\<rparr>)
        (cur_umask example_proc) ''/home/me/out'' = Inl EMFILE
   \<and> WriteFile no_descriptors_os example_proc ''new'' ''/home/me/out''
     = (False, example_proc\<lparr>kernel := example_kernel\<lparr>nodes := take 2 (nodes example_kernel)\<rparr>,
                 errno := EMFILE,
                 trace := [SysUnlink ''/home/me/out'', SysOpen ''/home/me/out'']\<rparr>)
   \<and> map_of (take 2 (nodes example_kernel)) ''/home/me/out'' = None"
proof -
  have u: "os_unlink no_descriptors_os (kernel example_proc) ''/home/me/out''
      = Inr (example_kernel\<lparr>nodes := take 2 (nodes example_kernel)\<rparr>)"
    by (simp add: no_descriptors_os_def memfs_os_def memfs_unlink_def example_proc_def
          example_kernel_def)
  have o: "os_open no_descriptors_os (example_kernel\<lparr>nodes := take 2 (nodes example_kernel)\<rparr>)
      (cur_umask example_proc) ''/home/me/out'' = Inl EMFILE"
    by (simp add: no_descriptors_os_def memfs_os_def)
  have t: "trace example_proc = []"
    by (simp add: example_proc_def)
  have g: "map_of (take 2 (nodes example_kernel)) ''/home/me/out'' = None"
    by (simp add: example_kernel_def)
  show ?thesis
    using WriteFile_unlinks_before_open
      [of example_proc no_descriptors_os "''new''" "''/home/me/out''"
          "example_kernel\<lparr>nodes := take 2 (nodes example_kernel)\<rparr>" EMFILE] u o g
    by (simp add: t)
qed

section \<open>Properties of the Mtime Marker\<close>

lemma PosixFileMtime_new_fields:
  assumes "PosixFileMtime_new r1 r2 r3 = Inr this"
    and "is_time_t r1" and "is_time_t r3"
    and "r3 + 315360000 < 2 ^ 63" and "r1 < r3 + 31536000"
  shows "near_future this = r1 + 283824000"
    and "modtime (distant_future this) = r3 + 315360000"
proof -
  from assms(1) have n: "near_future this = wrap_time_t (r1 + 283824000)"
    and d: "modtime (distant_future this) = wrap_time_t (r3 + 315360000)"
    by (auto simp: PosixFileMtime_new_def GetFuture_def GetNow_def
          split: if_splits sum.splits)
  from assms(2-5) show "near_future this = r1 + 283824000"
    unfolding n by (simp add: wrap_time_t_def is_time_t_def)
  from assms(2-5) show "modtime (distant_future this) = r3 + 315360000"
    unfolding d by (simp add: wrap_time_t_def is_time_t_def)
qed

lemma GetIfInDistantFuture_stat:
  assumes "os_stat os (kernel w) path = Inr buf"
  shows "fst (GetIfInDistantFuture os this w path) = Some (st_mtime buf > near_future this)"
  using assms by (simp add: GetIfInDistantFuture_def sys_stat_def)

lemma SetToDistantFuture_trace:
  "trace (snd (SetToDistantFuture os this w path)) =
     trace w @ [SysUtime path (actime (distant_future this)) (modtime (distant_future this))]"
  by (simp add: SetToDistantFuture_def Set_mtime_def sys_utime_def logged_def split: sum.splits)

lemma SetToNow_trace:
  "SetToNow os this w path now = Inr (ok, w') \<Longrightarrow> trace w' = trace w @ [SysUtime path now now]"
  by (auto simp: SetToNow_def GetNow_def Set_mtime_def sys_utime_def logged_def
        split: if_splits sum.splits)

text \<open>
  Claim C4 as stated fails in two ways. With the three readings of the constructor equal
  to 1000, a \<open>SetToNow\<close> at the reading 283825001 (nine years and a second later) stamps a
  path that then answers true to \<open>GetIfInDistantFuture\<close>. And when the clock is stepped
  back by more than a year between the first and the third reading of the constructor
  (40000000, then 0), a path stamped by \<open>SetToDistantFuture\<close> answers false.
\<close>

theorem mtime_bands_overlap:
  "(case PosixFileMtime_new 1000 1000 1000 of
      Inl d \<Rightarrow> False
    | Inr this \<Rightarrow>
        (case SetToNow memfs_os this example_proc ''/home/me/out'' 283825001 of
           Inl d \<Rightarrow> False
         | Inr (ok, w) \<Rightarrow>
             ok \<and> GetIfInDistantFuture memfs_os this w ''/home/me/out''
                   = (Some True, logged (SysStat ''/home/me/out'') w)))
   \<and> (case PosixFileMtime_new 40000000 0 0 of
        Inl d \<Rightarrow> False
      | Inr this \<Rightarrow>
          (case SetToDistantFuture memfs_os this example_proc ''/home/me/out'' of
             (ok, w) \<Rightarrow>
               ok \<and> GetIfInDistantFuture memfs_os this w ''/home/me/out''
                     = (Some False, logged (SysStat ''/home/me/out'') w)))"
  by (simp add: PosixFileMtime_new_def GetFuture_def GetNow_def wrap_time_t_def SetToNow_def
        SetToDistantFuture_def Set_mtime_def sys_utime_def GetIfInDistantFuture_def
        sys_stat_def logged_def memfs_os_def memfs_utime_def memfs_stat_def set_node_def
        node_stat_def example_proc_def example_kernel_def)

text \<open>
  Claim C4, amended. Take a marker whose constructor read the clock as \<open>r1\<close>, \<open>r2\<close>, \<open>r3\<close>,
  with the clock not stepped back by a year or more in between and no overflow of
  \<open>time_t\<close>. \<open>SetToDistantFuture\<close> passes to \<open>utime\<close> the stamp \<open>r3\<close> plus ten years, and
  \<open>SetToNow\<close> the reading of the clock at the call. A path stamped by a successful
  \<open>SetToDistantFuture\<close>, on which \<open>stat\<close> then reports that stamp, answers true to
  \<open>GetIfInDistantFuture\<close>; a path stamped by a successful \<open>SetToNow\<close> at a reading of at
  most nine years after \<open>r1\<close>, on which \<open>stat\<close> then reports that stamp, answers false;
  and every such reading is at most the threshold, which is strictly below the
  distant-future stamp, so the two bands are disjoint.
\<close>

theorem mtime_bands:
  assumes "PosixFileMtime_new r1 r2 r3 = Inr this"
    and "is_time_t r1" and "is_time_t r3"
    and "r3 + 315360000 < 2 ^ 63" and "r1 < r3 + 31536000"
  shows "modtime (distant_future this) = r3 + 315360000
       \<and> trace (snd (SetToDistantFuture os this w path)) =
           trace w @ [SysUtime path (actime (distant_future this)) (r3 + 315360000)]
       \<and> (SetToDistantFuture os this w path = (True, w')
           \<and> os_stat os (kernel w') path = Inr buf \<and> st_mtime buf = r3 + 315360000 \<longrightarrow>
            fst (GetIfInDistantFuture os this w' path) = Some True)
       \<and> (SetToNow os this w path now = Inr (True, w'') \<longrightarrow>
            trace w'' = trace w @ [SysUtime path now now])
       \<and> (now \<le> r1 + 283824000 \<and> SetToNow os this w path now = Inr (True, w'')
           \<and> os_stat os (kernel w'') path = Inr buf' \<and> st_mtime buf' = now \<longrightarrow>
            fst (GetIfInDistantFuture os this w'' path) = Some False)
       \<and> (now \<le> r1 + 283824000 \<longrightarrow>
            now \<le> near_future this \<and> near_future this < modtime (distant_future this))"
proof -
  note f = PosixFileMtime_new_fields [OF assms]
  have t: "trace (snd (SetToDistantFuture os this w path)) =
      trace w @ [SysUtime path (actime (distant_future this)) (r3 + 315360000)]"
    using SetToDistantFuture_trace [of os this w path] f(2) by simp
  have a: "SetToDistantFuture os this w path = (True, w')
      \<and> os_stat os (kernel w') path = Inr buf \<and> st_mtime buf = r3 + 315360000 \<longrightarrow>
      fst (GetIfInDistantFuture os this w' path) = Some True"
  proof
    assume h: "SetToDistantFuture os this w path = (True, w')
      \<and> os_stat os (kernel w') path = Inr buf \<and> st_mtime buf = r3 + 315360000"
    then have "os_stat os (kernel w') path = Inr buf" by simp
    from GetIfInDistantFuture_stat [OF this, of this]
    show "fst (GetIfInDistantFuture os this w' path) = Some True"
      using h f assms(5) by simp
  qed
  have n: "SetToNow os this w path now = Inr (True, w'') \<longrightarrow>
      trace w'' = trace w @ [SysUtime path now now]"
    using SetToNow_trace [of os this w path now True w''] by simp
  have b: "now \<le> r1 + 283824000 \<and> SetToNow os this w path now = Inr (True, w'')
      \<and> os_stat os (kernel w'') path = Inr buf' \<and> st_mtime buf' = now \<longrightarrow>
      fst (GetIfInDistantFuture os this w'' path) = Some False"
  proof
    assume h: "now \<le> r1 + 283824000 \<and> SetToNow os this w path now = Inr (True, w'')
      \<and> os_stat os (kernel w'') path = Inr buf' \<and> st_mtime buf' = now"
    then have "os_stat os (kernel w'') path = Inr buf'" by simp
    from GetIfInDistantFuture_stat [OF this, of this]
    show "fst (GetIfInDistantFuture os this w'' path) = Some False"
      using h f by simp
  qed
  have c: "now \<le> r1 + 283824000 \<longrightarrow>
      now \<le> near_future this \<and> near_future this < modtime (distant_future this)"
    using f assms(5) by simp
  from f(2) t a n b c show ?thesis by blast
qed

theorem mtime_bands_witness:
  "PosixFileMtime_new 1000 1001 1002
       = Inr \<lparr>near_future = 283825000,
              distant_future = \<lparr>actime = 315361001, modtime = 315361002\<rparr>\<rparr>
   \<and> is_time_t 1000 \<and> is_time_t 1002
   \<and> (1002 + 315360000 < (2 :: int) ^ 63) \<and> ((1000 :: int) < 1002 + 31536000)
   \<and> fst (SetToDistantFuture memfs_os
            \<lparr>near_future = 283825000,
             distant_future = \<lparr>actime = 315361001, modtime = 315361002\<rparr>\<rparr>
            example_proc ''/home/me/out'')
   \<and> os_stat memfs_os
        (kernel (snd (SetToDistantFuture memfs_os
            \<lparr>near_future = 283825000,
             distant_future = \<lparr>actime = 315361001, modtime = 315361002\<rparr>\<rparr>
            example_proc ''/home/me/out''))) ''/home/me/out''
       = Inr \<lparr>st_mode = 0x81ED, st_uid = 1000, st_mtime = 1002 + 315360000\<rparr>
   \<and> fst (GetIfInDistantFuture memfs_os
            \<lparr>near_future = 283825000,
             distant_future = \<lparr>actime = 315361001, modtime = 315361002\<rparr>\<rparr>
            (snd (SetToDistantFuture memfs_os
               \<lparr>near_future = 283825000,
                distant_future = \<lparr>actime = 315361001, modtime = 315361002\<rparr>\<rparr>
               example_proc ''/home/me/out''))
            ''/home/me/out'') = Some True
   \<and> (2000 :: int) \<le> 1000 + 283824000
   \<and> fst (projr (SetToNow memfs_os
            \<lparr>near_future = 283825000,
             distant_future = \<lparr>actime = 315361001, modtime = 315361002\<rparr>\<rparr>
            example_proc ''/home/me/out'' 2000))
   \<and> os_stat memfs_os
        (kernel (snd (projr (SetToNow memfs_os
            \<lparr>near_future = 283825000,
             distant_future = \<lparr>actime = 315361001, modtime = 315361002\<rparr>\<rparr>
            example_proc ''/home/me/out'' 2000)))) ''/home/me/out''
       = Inr \<lparr>st_mode = 0x81ED, st_uid = 1000, st_mtime = 2000\<rparr>
   \<and> fst (GetIfInDistantFuture memfs_os
            \<lparr>near_future = 283825000,
             distant_future = \<lparr>actime = 315361001, modtime = 315361002\<rparr>\<rparr>
            (snd (projr (SetToNow memfs_os
               \<lparr>near_future = 283825000,
                distant_future = \<lparr>actime = 315361001, modtime = 315361002\<rparr>\<rparr>
               example_proc ''/home/me/out'' 2000)))
            ''/home/me/out'') = Some False
   \<and> (2000 :: int) < 315361002"
proof -
  define this where "this = \<lparr>near_future = 283825000,
      distant_future = \<lparr>actime = 315361001, modtime = 315361002\<rparr>\<rparr>"
  define w' where "w' = snd (SetToDistantFuture memfs_os this example_proc ''/home/me/out'')"
  define w'' where "w'' = snd (projr (SetToNow memfs_os this example_proc ''/home/me/out'' 2000))"
  have new: "PosixFileMtime_new 1000 1001 1002 = Inr this"
    by (simp add: this_def PosixFileMtime_new_def GetFuture_def GetNow_def wrap_time_t_def)
  have r: "is_time_t 1000" "is_time_t 1002" "1002 + 315360000 < (2 :: int) ^ 63"
      "(1000 :: int) < 1002 + 31536000"
    by (simp_all add: is_time_t_def)
  have d: "SetToDistantFuture memfs_os this example_proc ''/home/me/out'' = (True, w')"
    by (simp add: w'_def this_def SetToDistantFuture_def Set_mtime_def sys_utime_def
          memfs_os_def memfs_utime_def example_proc_def example_kernel_def)
  have sd: "os_stat memfs_os (kernel w') ''/home/me/out''
      = Inr \<lparr>st_mode = 0x81ED, st_uid = 1000, st_mtime = 1002 + 315360000\<rparr>"
    by (simp add: w'_def this_def SetToDistantFuture_def Set_mtime_def sys_utime_def
          logged_def memfs_os_def memfs_utime_def memfs_stat_def set_node_def node_stat_def
          example_proc_def example_kernel_def)
  have n: "SetToNow memfs_os this example_proc ''/home/me/out'' 2000 = Inr (True, w'')"
    by (simp add: w''_def SetToNow_def GetNow_def Set_mtime_def sys_utime_def memfs_os_def
          memfs_utime_def example_proc_def example_kernel_def)
  have sn: "os_stat memfs_os (kernel w'') ''/home/me/out''
      = Inr \<lparr>st_mode = 0x81ED, st_uid = 1000, st_mtime = 2000\<rparr>"
    by (simp add: w''_def SetToNow_def GetNow_def Set_mtime_def sys_utime_def
          logged_def memfs_os_def memfs_utime_def memfs_stat_def set_node_def node_stat_def
          example_proc_def example_kernel_def)
  have le: "(2000 :: int) \<le> 1000 + 283824000" by simp
  from mtime_bands [OF new r, of memfs_os example_proc "''/home/me/out''" w'
      "\<lparr>st_mode = 0x81ED, st_uid = 1000, st_mtime = 1002 + 315360000\<rparr>" 2000 w''
      "\<lparr>st_mode = 0x81ED, st_uid = 1000, st_mtime = 2000\<rparr>"] d sd n sn le
  have "fst (GetIfInDistantFuture memfs_os this w' ''/home/me/out'') = Some True"
    and "fst (GetIfInDistantFuture memfs_os this w'' ''/home/me/out'') = Some False"
    by simp_all
  moreover have "fst (SetToDistantFuture memfs_os this example_proc ''/home/me/out'')"
    using d by simp
  moreover have "fst (projr (SetToNow memfs_os this example_proc ''/home/me/out'' 2000))"
    using n by simp
  ultimately show ?thesis
    using new r sd sn unfolding this_def w'_def w''_def by simp
qed

section \<open>Properties of the Sandbox Configuration Parser\<close>

subsection \<open>The body of the loop, letter by letter\<close>

lemma case_S:
  "ParseCommandLine_case e (FlagArg (CHR ''S'') a) s =
     (if sandbox_root_dir (fst s) = None then
        absolute a (CHR ''S'') (Inr ((fst s)\<lparr>sandbox_root_dir := Some a\<rparr>, False))
      else Inl (UsageError MultipleRootDirs))"
  by (simp add: ParseCommandLine_case_def letter_def Let_def)

lemma case_W:
  "ParseCommandLine_case e (FlagArg (CHR ''W'') a) s =
     (if working_dir (fst s) = None then
        absolute a (CHR ''W'') (Inr ((fst s)\<lparr>working_dir := Some a\<rparr>, False))
      else Inl (UsageError MultipleWorkingDirs))"
  by (simp add: ParseCommandLine_case_def letter_def Let_def)

lemma case_T:
  "ParseCommandLine_case e (FlagArg (CHR ''T'') a) s =
     (case sscanf_d a of
        None \<Rightarrow> Inl (UsageError (InvalidTimeout a))
      | Some v \<Rightarrow>
          if \<not> is_int v then Inl (Undefined ''sscanf: not representable'')
          else if v < 0 then Inl (UsageError (InvalidTimeout a))
          else Inr ((fst s)\<lparr>timeout_secs := v\<rparr>, False))"
  by (simp add: ParseCommandLine_case_def letter_def Let_def)

lemma case_t:
  "ParseCommandLine_case e (FlagArg (CHR ''t'') a) s =
     (case sscanf_d a of
        None \<Rightarrow> Inl (UsageError (InvalidKillDelay a))
      | Some v \<Rightarrow>
          if \<not> is_int v then Inl (Undefined ''sscanf: not representable'')
          else if v < 0 then Inl (UsageError (InvalidKillDelay a))
          else Inr ((fst s)\<lparr>kill_delay_secs := v\<rparr>, False))"
  by (simp add: ParseCommandLine_case_def letter_def Let_def)

lemma case_l:
  "ParseCommandLine_case e (FlagArg (CHR ''l'') a) s =
     (if stdout_path (fst s) = None then Inr ((fst s)\<lparr>stdout_path := Some a\<rparr>, False)
      else Inl (UsageError MultipleStdout))"
  by (simp add: ParseCommandLine_case_def letter_def Let_def)

lemma case_L:
  "ParseCommandLine_case e (FlagArg (CHR ''L'') a) s =
     (if stderr_path (fst s) = None then Inr ((fst s)\<lparr>stderr_path := Some a\<rparr>, False)
      else Inl (UsageError MultipleStderr))"
  by (simp add: ParseCommandLine_case_def letter_def Let_def)

lemma case_w:
  "ParseCommandLine_case e (FlagArg (CHR ''w'') a) s =
     absolute a (CHR ''w'') (Inr ((fst s)\<lparr>writable_files := writable_files (fst s) @ [a]\<rparr>, False))"
  by (simp add: ParseCommandLine_case_def letter_def Let_def)

lemma case_i:
  "ParseCommandLine_case e (FlagArg (CHR ''i'') a) s =
     absolute a (CHR ''i'')
       (Inr ((fst s)\<lparr>inaccessible_files := inaccessible_files (fst s) @ [a]\<rparr>, False))"
  by (simp add: ParseCommandLine_case_def letter_def Let_def)

lemma case_e:
  "ParseCommandLine_case e (FlagArg (CHR ''e'') a) s =
     absolute a (CHR ''e'') (Inr ((fst s)\<lparr>tmpfs_dirs := tmpfs_dirs (fst s) @ [a]\<rparr>, False))"
  by (simp add: ParseCommandLine_case_def letter_def Let_def)

lemma case_M:
  "ParseCommandLine_case e (FlagArg (CHR ''M'') a) s =
     absolute a (CHR ''M'')
       (Inr ((fst s)\<lparr>bind_mount_sources := bind_mount_sources (fst s) @ [a],
                     bind_mount_targets := bind_mount_targets (fst s) @ [a]\<rparr>, True))"
  by (simp add: ParseCommandLine_case_def letter_def Let_def)

lemma case_m:
  "ParseCommandLine_case e (FlagArg (CHR ''m'') a) s =
     absolute a (CHR ''m'')
       (if \<not> snd s then Inl (UsageError TargetWithoutSource)
        else if bind_mount_targets (fst s) = [] then
          Inl (Undefined ''pop_back on an empty vector'')
        else
          Inr ((fst s)\<lparr>bind_mount_targets := butlast (bind_mount_targets (fst s)) @ [a]\<rparr>,
               False))"
  by (simp add: ParseCommandLine_case_def letter_def Let_def)

lemma case_no_letter:
  "c \<notin> set ''SWTtlLwieMm'' \<Longrightarrow> ParseCommandLine_case e (FlagArg c a) s = Inr (fst s, False)"
  by (simp add: ParseCommandLine_case_def letter_def Let_def)

lemma case_C:
  "ParseCommandLine_case e (Flag (CHR ''C'')) s =
     (case CheckNamespacesSupported (namespaces e) of
        Inl d \<Rightarrow> Inl d
      | Inr status \<Rightarrow> Inl (Exit status))"
  by (simp add: ParseCommandLine_case_def letter_def Let_def)

lemma case_N:
  "ParseCommandLine_case e (Flag (CHR ''N'')) s = Inr ((fst s)\<lparr>create_netns := True\<rparr>, False)"
  by (simp add: ParseCommandLine_case_def letter_def Let_def)

lemma case_R:
  "ParseCommandLine_case e (Flag (CHR ''R'')) s = Inr ((fst s)\<lparr>fake_root := True\<rparr>, False)"
  by (simp add: ParseCommandLine_case_def letter_def Let_def)

lemma case_D:
  "ParseCommandLine_case e (Flag (CHR ''D'')) s = Inr ((fst s)\<lparr>debug := True\<rparr>, False)"
  by (simp add: ParseCommandLine_case_def letter_def Let_def)

lemma case_no_flag:
  "c \<notin> set ''CNRDMm'' \<Longrightarrow> ParseCommandLine_case e (Flag c) s = Inr (fst s, False)"
  by (simp add: ParseCommandLine_case_def letter_def Let_def)

lemma case_errors:
  "ParseCommandLine_case e (UnknownFlag x) s = Inl (UsageError (UnrecognizedArgument x))"
  "ParseCommandLine_case e (MissingArg x) s = Inl (UsageError (MissingFlagArgument x))"
  "ParseCommandLine_case e NoMoreOptions s = Inr (fst s, False)"
  by (simp_all add: ParseCommandLine_case_def letter_def Let_def)

lemmas case_letters =
  case_S case_W case_T case_t case_l case_L case_w case_i case_e case_M case_m
  case_C case_N case_R case_D case_errors

text \<open>
  Every option other than \<open>-M\<close> and \<open>-m\<close> leaves the two bind-mount lists as they are and
  sets \<open>source_specified\<close> to false.
\<close>

lemma case_Flag_frame:
  assumes "ParseCommandLine_case e (Flag c) s = Inr s'"
    and "c \<noteq> CHR ''M''" and "c \<noteq> CHR ''m''"
  shows "bind_mount_sources (fst s') = bind_mount_sources (fst s)
       \<and> bind_mount_targets (fst s') = bind_mount_targets (fst s) \<and> \<not> snd s'"
proof (cases "c \<in> set ''CNRD''")
  case True
  then consider "c = CHR ''C''" | "c = CHR ''N''" | "c = CHR ''R''" | "c = CHR ''D''"
    by auto
  then show ?thesis
    using assms(1) by cases (auto simp: case_letters split: sum.splits)
next
  case False
  with assms have "c \<notin> set ''CNRDMm''" by simp
  from case_no_flag [OF this] assms(1) show ?thesis by auto
qed

lemma case_FlagArg_frame:
  assumes "ParseCommandLine_case e (FlagArg c a) s = Inr s'"
    and "c \<noteq> CHR ''M''" and "c \<noteq> CHR ''m''"
  shows "bind_mount_sources (fst s') = bind_mount_sources (fst s)
       \<and> bind_mount_targets (fst s') = bind_mount_targets (fst s) \<and> \<not> snd s'"
proof (cases "c \<in> set ''SWTtlLwie''")
  case True
  then consider "c = CHR ''S''" | "c = CHR ''W''" | "c = CHR ''T''" | "c = CHR ''t''"
    | "c = CHR ''l''" | "c = CHR ''L''" | "c = CHR ''w''" | "c = CHR ''i''" | "c = CHR ''e''"
    by auto
  then show ?thesis
    using assms(1)
    by cases (auto simp: case_letters absolute_def split: sum.splits option.splits if_splits)
next
  case False
  with assms have "c \<notin> set ''SWTtlLwieMm''" by simp
  from case_no_letter [OF this] assms(1) show ?thesis by auto
qed

subsection \<open>Bind-mount pairing\<close>

lemma zip_replace_last:
  assumes "length xs = length ys" and "ys \<noteq> []"
  shows "zip xs (butlast ys @ [a]) = butlast (zip xs ys) @ [(fst (last (zip xs ys)), a)]"
proof -
  from assms obtain ys' y where ys: "ys = ys' @ [y]"
    by (cases ys rule: rev_cases) auto
  with assms obtain xs' x where xs: "xs = xs' @ [x]"
    by (cases xs rule: rev_cases) auto
  with ys assms have "length xs' = length ys'" by simp
  with xs ys show ?thesis by simp
qed

lemma getopt_Flag_lookup:
  "getopt posix opts st = (Flag c, st') \<Longrightarrow> optstring_lookup c opts = Some False"
  by (auto simp: getopt_def split: sum.splits list.splits option.splits bool.splits if_splits)

lemma getopt_Flag:
  assumes "getopt posix optstring st = (Flag c, st')"
  shows "c \<noteq> CHR ''M'' \<and> c \<noteq> CHR ''m''"
proof -
  have "optstring_lookup (CHR ''M'') optstring = Some True"
    and "optstring_lookup (CHR ''m'') optstring = Some True"
    by (simp_all add: optstring_def)
  with getopt_Flag_lookup [OF assms] show ?thesis by auto
qed

text \<open>
  The relation between the state of the loop and the state of the specification's
  machine. The pairs are the two lists zipped, which have the same length. The pair is
  open where \<open>source_specified\<close> holds, except that before the first option is read
  \<open>source_specified\<close> may hold by chance, with no pair at all.
\<close>

lemma case_step:
  assumes c: "ParseCommandLine_case e r s = Inr s'"
    and len: "length (bind_mount_sources (fst s)) = length (bind_mount_targets (fst s))"
    and op: "snd sp = snd s \<or> (bind_mount_targets (fst s) = [] \<and> \<not> snd sp)"
    and sp: "fst sp = bind_mounts (fst s)"
    and fl: "\<And>c. r = Flag c \<Longrightarrow> c \<noteq> CHR ''M'' \<and> c \<noteq> CHR ''m''"
  shows "\<exists>sp'. spec_pair_step sp r = Some sp'
       \<and> length (bind_mount_sources (fst s')) = length (bind_mount_targets (fst s'))
       \<and> snd sp' = snd s' \<and> fst sp' = bind_mounts (fst s')"
proof (cases r)
  case (Flag x)
  with case_Flag_frame [of e x s s'] c fl len sp show ?thesis
    by (simp add: spec_pair_step_def bind_mounts_def)
next
  case (FlagArg x a)
  consider "x = CHR ''M''" | "x = CHR ''m''" | "x \<noteq> CHR ''M''" "x \<noteq> CHR ''m''"
    by blast
  then show ?thesis
  proof cases
    case 1
    with c FlagArg have "ParseCommandLine_case e (FlagArg (CHR ''M'') a) s = Inr s'"
      by simp
    then have s': "s' = ((fst s)\<lparr>bind_mount_sources := bind_mount_sources (fst s) @ [a],
        bind_mount_targets := bind_mount_targets (fst s) @ [a]\<rparr>, True)"
      unfolding case_M absolute_def by (simp split: sum.splits)
    have "spec_pair_step sp r = Some (fst sp @ [(a, a)], True)"
      using FlagArg 1 by (simp add: spec_pair_step_def)
    then show ?thesis
      using len sp unfolding s' by (simp add: bind_mounts_def)
  next
    case 2
    with c FlagArg have "ParseCommandLine_case e (FlagArg (CHR ''m'') a) s = Inr s'"
      by simp
    then have ss: "snd s" and ne: "bind_mount_targets (fst s) \<noteq> []"
      and s': "s' = ((fst s)\<lparr>bind_mount_targets := butlast (bind_mount_targets (fst s)) @ [a]\<rparr>,
        False)"
      unfolding case_m absolute_def by (simp_all split: sum.splits if_splits)
    from op ss ne have o: "snd sp" by auto
    from sp len ne have fs: "fst sp \<noteq> []" by (auto simp: bind_mounts_def)
    have "spec_pair_step sp r = Some (butlast (fst sp) @ [(fst (last (fst sp)), a)], False)"
      using FlagArg 2 o fs by (simp add: spec_pair_step_def)
    then show ?thesis
      unfolding s' using len ne sp zip_replace_last [OF len ne, of a]
      by (simp add: bind_mounts_def)
  next
    case 3
    with case_FlagArg_frame [of e x a s s'] c FlagArg len sp show ?thesis
      by (simp add: spec_pair_step_def bind_mounts_def)
  qed
next
  case (UnknownFlag x)
  with c show ?thesis by (simp add: case_errors)
next
  case (MissingArg x)
  with c show ?thesis by (simp add: case_errors)
next
  case NoMoreOptions
  with c len sp show ?thesis
    by (auto simp: case_errors spec_pair_step_def bind_mounts_def)
qed

lemma loop_pairs:
  assumes "ParseCommandLine_loop e st s = Inr (opt', left)"
    and "length (bind_mount_sources (fst s)) = length (bind_mount_targets (fst s))"
    and "snd sp = snd s \<or> (bind_mount_targets (fst s) = [] \<and> \<not> snd sp)"
    and "fst sp = bind_mounts (fst s)"
  shows "length (bind_mount_sources opt') = length (bind_mount_targets opt')
     \<and> spec_pairs sp (getopt_results (posixly_correct e) st) = Some (bind_mounts opt')"
  using assms
proof (induction e st s arbitrary: sp rule: ParseCommandLine_loop.induct)
  case (1 e st s)
  obtain r st' where g: "getopt (posixly_correct e) optstring st = (r, st')"
    by (cases "getopt (posixly_correct e) optstring st")
  show ?case
  proof (cases "r = NoMoreOptions")
    case True
    with g "1.prems" show ?thesis
      by (subst getopt_results.simps)
         (auto simp: ParseCommandLine_loop.simps [of e st s])
  next
    case False
    with g "1.prems"(1) obtain s' where c: "ParseCommandLine_case e r s = Inr s'"
      and l: "ParseCommandLine_loop e st' s' = Inr (opt', left)"
      by (auto simp: ParseCommandLine_loop.simps [of e st s] split: sum.splits)
    from case_step [OF c "1.prems"(2-4)] getopt_Flag g obtain sp' where
      sp': "spec_pair_step sp r = Some sp'"
        "length (bind_mount_sources (fst s')) = length (bind_mount_targets (fst s'))"
        "snd sp' = snd s'" "fst sp' = bind_mounts (fst s')"
      by blast
    from "1.IH" [OF g [symmetric] False c l sp'(2) _ sp'(4), of ] sp'(3) g False sp'(1)
    show ?thesis
      by (subst getopt_results.simps) simp
  qed
qed

lemmas parse_eval =
  ParseCommandLine_def ParseCommandLine_loop.simps getopt_def optstring_def case_letters
  absolute_def ValidateIsAbsolutePath_def

text \<open>
  Claim C2. Whenever \<open>ParseCommandLine\<close> returns a configuration, its two bind-mount lists
  have the same length and, zipped, are the pairs that the specification's machine
  builds from the options \<open>getopt\<close> delivers: each \<open>-M s\<close> appends \<open>(s, s)\<close>, and a \<open>-m t\<close> that
  follows it at once replaces the target of that last pair only. In particular the
  options \<open>-M /a -m /b -M /c\<close>, with or without a command after them, give the pairs
  \<open>(/a, /b)\<close> and \<open>(/c, /c)\<close>, whatever the environment.
\<close>

theorem bind_mount_pairs:
  "(ParseCommandLine e expanded initial_opt = Inr opt \<longrightarrow>
      length (bind_mount_sources opt) = length (bind_mount_targets opt)
      \<and> spec_pairs ([], False)
           (getopt_results (posixly_correct e)
              \<lparr>nextchar = [], unread = tl expanded, skipped = []\<rparr>)
          = Some (bind_mounts opt))
   \<and> ParseCommandLine e
        (prog # ''-M'' # ''/a'' # ''-m'' # ''/b'' # ''-M'' # ''/c'' # ''--'' # cmd) initial_opt
       = Inr (initial_opt\<lparr>bind_mount_sources := [''/a'', ''/c''],
                bind_mount_targets := [''/b'', ''/c''], args := cmd\<rparr>)
   \<and> ParseCommandLine e [prog, ''-M'', ''/a'', ''-m'', ''/b'', ''-M'', ''/c''] initial_opt
       = Inr (initial_opt\<lparr>bind_mount_sources := [''/a'', ''/c''],
                bind_mount_targets := [''/b'', ''/c'']\<rparr>)
   \<and> bind_mounts (initial_opt\<lparr>bind_mount_sources := [''/a'', ''/c''],
                     bind_mount_targets := [''/b'', ''/c''], args := cmd\<rparr>)
       = [(''/a'', ''/b''), (''/c'', ''/c'')]"
proof -
  have general: "ParseCommandLine e expanded initial_opt = Inr opt \<longrightarrow>
      length (bind_mount_sources opt) = length (bind_mount_targets opt)
      \<and> spec_pairs ([], False)
           (getopt_results (posixly_correct e)
              \<lparr>nextchar = [], unread = tl expanded, skipped = []\<rparr>)
          = Some (bind_mounts opt)"
  proof
    assume p: "ParseCommandLine e expanded initial_opt = Inr opt"
    then obtain opt' left where
      l: "ParseCommandLine_loop e \<lparr>nextchar = [], unread = tl expanded, skipped = []\<rparr>
            (initial_opt, indeterminate e) = Inr (opt', left)"
      by (auto simp: ParseCommandLine_def split: sum.splits)
    with p have o: "bind_mount_sources opt = bind_mount_sources opt'"
        "bind_mount_targets opt = bind_mount_targets opt'"
      by (auto simp: ParseCommandLine_def split: if_splits)
    have "length (bind_mount_sources opt') = length (bind_mount_targets opt')
      \<and> spec_pairs ([], False)
           (getopt_results (posixly_correct e)
              \<lparr>nextchar = [], unread = tl expanded, skipped = []\<rparr>)
          = Some (bind_mounts opt')"
      by (rule loop_pairs [OF l]) (simp_all add: initial_opt_def bind_mounts_def)
    with o show "length (bind_mount_sources opt) = length (bind_mount_targets opt)
      \<and> spec_pairs ([], False)
           (getopt_results (posixly_correct e)
              \<lparr>nextchar = [], unread = tl expanded, skipped = []\<rparr>)
          = Some (bind_mounts opt)"
      by (simp add: bind_mounts_def)
  qed
  have with_command: "ParseCommandLine e
        (prog # ''-M'' # ''/a'' # ''-m'' # ''/b'' # ''-M'' # ''/c'' # ''--'' # cmd) initial_opt
       = Inr (initial_opt\<lparr>bind_mount_sources := [''/a'', ''/c''],
                bind_mount_targets := [''/b'', ''/c''], args := cmd\<rparr>)"
    by (simp add: parse_eval initial_opt_def)
  have without: "ParseCommandLine e [prog, ''-M'', ''/a'', ''-m'', ''/b'', ''-M'', ''/c''] initial_opt
       = Inr (initial_opt\<lparr>bind_mount_sources := [''/a'', ''/c''],
                bind_mount_targets := [''/b'', ''/c'']\<rparr>)"
    by (simp add: parse_eval initial_opt_def)
  have pairs: "bind_mounts (initial_opt\<lparr>bind_mount_sources := [''/a'', ''/c''],
                     bind_mount_targets := [''/b'', ''/c''], args := cmd\<rparr>)
       = [(''/a'', ''/b''), (''/c'', ''/c'')]"
    by (simp add: bind_mounts_def)
  from general with_command without pairs show ?thesis by blast
qed

theorem bind_mount_pairs_witness:
  "ParseCommandLine example_env
      [''linux-sandbox'', ''-N'', ''-M'', ''/a'', ''-m'', ''/b'', ''-M/c'', ''-D'', ''--'', ''/bin/true'']
      initial_opt
     = Inr (initial_opt\<lparr>bind_mount_sources := [''/a'', ''/c''],
              bind_mount_targets := [''/b'', ''/c''], create_netns := True, debug := True,
              args := [''/bin/true'']\<rparr>)
   \<and> getopt_results (posixly_correct example_env)
        \<lparr>nextchar = [],
         unread = [''-N'', ''-M'', ''/a'', ''-m'', ''/b'', ''-M/c'', ''-D'', ''--'', ''/bin/true''],
         skipped = []\<rparr>
       = [Flag (CHR ''N''), FlagArg (CHR ''M'') ''/a'', FlagArg (CHR ''m'') ''/b'',
          FlagArg (CHR ''M'') ''/c'', Flag (CHR ''D'')]
   \<and> spec_pairs ([], False)
        [Flag (CHR ''N''), FlagArg (CHR ''M'') ''/a'', FlagArg (CHR ''m'') ''/b'',
         FlagArg (CHR ''M'') ''/c'', Flag (CHR ''D'')]
       = Some [(''/a'', ''/b''), (''/c'', ''/c'')]"
proof -
  have p: "ParseCommandLine example_env
      [''linux-sandbox'', ''-N'', ''-M'', ''/a'', ''-m'', ''/b'', ''-M/c'', ''-D'', ''--'', ''/bin/true'']
      initial_opt
     = Inr (initial_opt\<lparr>bind_mount_sources := [''/a'', ''/c''],
              bind_mount_targets := [''/b'', ''/c''], create_netns := True, debug := True,
              args := [''/bin/true'']\<rparr>)"
    by (simp add: parse_eval initial_opt_def)
  have g: "getopt_results (posixly_correct example_env)
        \<lparr>nextchar = [],
         unread = [''-N'', ''-M'', ''/a'', ''-m'', ''/b'', ''-M/c'', ''-D'', ''--'', ''/bin/true''],
         skipped = []\<rparr>
       = [Flag (CHR ''N''), FlagArg (CHR ''M'') ''/a'', FlagArg (CHR ''m'') ''/b'',
          FlagArg (CHR ''M'') ''/c'', Flag (CHR ''D'')]"
    by (simp add: getopt_results.simps getopt_def optstring_def)
  from bind_mount_pairs
    [of example_env
        "[''linux-sandbox'', ''-N'', ''-M'', ''/a'', ''-m'', ''/b'', ''-M/c'', ''-D'', ''--'',
          ''/bin/true'']"
        "initial_opt\<lparr>bind_mount_sources := [''/a'', ''/c''],
           bind_mount_targets := [''/b'', ''/c''], create_netns := True, debug := True,
           args := [''/bin/true'']\<rparr>"]
    p g
  show ?thesis
    by (simp add: bind_mounts_def)
qed

lemma target_needs_open_pair:
  "ParseCommandLine_case e (FlagArg (CHR ''m'') a) (opt, False) =
     Inl (UsageError (if a \<noteq> [] \<and> hd a = CHR ''/'' then TargetWithoutSource
                      else NotAbsolute (CHR ''m'')))"
  by (cases a) (simp_all add: case_m absolute_def ValidateIsAbsolutePath_def)

text \<open>
  Claim C5, evaluated where the code departs from it. When \<open>-m /x\<close> is the first option,
  line 130 does not assign \<open>source_specified\<close> and line 203 reads the value the variable
  happens to have. Found true, it lets the parser go on to \<open>pop_back\<close> on the empty
  vector of targets; there is no usage error. Found false, the usage error of line 204
  is raised, as it is for every \<open>-m\<close> that is not the first option and does not follow
  a \<open>-M\<close> at once.
\<close>

theorem target_as_first_option:
  "ParseCommandLine (e\<lparr>indeterminate := True\<rparr>) (prog # ''-m'' # ''/x'' # ''--'' # cmd)
       initial_opt
     = Inl (Undefined ''pop_back on an empty vector'')
   \<and> ParseCommandLine (e\<lparr>indeterminate := False\<rparr>) (prog # ''-m'' # ''/x'' # ''--'' # cmd)
       initial_opt
     = Inl (UsageError TargetWithoutSource)
   \<and> ParseCommandLine (e\<lparr>indeterminate := True\<rparr>)
       (prog # ''-N'' # ''-m'' # ''/x'' # ''--'' # cmd) initial_opt
     = Inl (UsageError TargetWithoutSource)
   \<and> ParseCommandLine (e\<lparr>indeterminate := True\<rparr>)
       (prog # ''-M'' # ''/a'' # ''-m'' # ''/b'' # ''-m'' # ''/x'' # ''--'' # cmd) initial_opt
     = Inl (UsageError TargetWithoutSource)"
  by (simp add: parse_eval initial_opt_def)

subsection \<open>Numeric options\<close>

lemma isdigit_not_isspace: "isdigit c \<Longrightarrow> \<not> isspace c"
  by (auto simp: isdigit_def isspace_def)

lemma isdigit_not_sign: "isdigit c \<Longrightarrow> c \<noteq> CHR ''-'' \<and> c \<noteq> CHR ''+''"
  by (auto simp: isdigit_def)

lemma decimal_step_nonneg:
  "0 \<le> a \<Longrightarrow> list_all isdigit ds \<Longrightarrow>
     0 \<le> foldl (\<lambda>a c. 10 * a + ((of_char c :: int) - 48)) a ds"
proof (induction ds arbitrary: a)
  case Nil
  then show ?case by simp
next
  case (Cons d ds)
  from Cons.prems have "48 \<le> (of_char d :: nat)" by (simp add: isdigit_def)
  then have "48 \<le> int (of_char d)" by linarith
  moreover have "(of_char d :: int) = int (of_char d)" by (simp add: of_nat_of_char)
  ultimately have "0 \<le> 10 * a + ((of_char d :: int) - 48)"
    using Cons.prems(1) by linarith
  with Cons.IH [of "10 * a + ((of_char d :: int) - 48)"] Cons.prems(2) show ?case
    by simp
qed

lemma decimal_nonneg: "list_all isdigit ds \<Longrightarrow> 0 \<le> decimal ds"
  unfolding decimal_def by (rule decimal_step_nonneg) simp_all

lemma sscanf_d_prefix:
  assumes ws: "list_all isspace ws" and ds: "nonneg_decimal ds"
    and rest: "rest = [] \<or> \<not> isdigit (hd rest)"
  shows "sscanf_d (ws @ ds @ rest) = Some (decimal ds)"
proof -
  from ds obtain d ds' where d: "ds = d # ds'" "isdigit d" "list_all isdigit ds'"
    by (cases ds) (auto simp: nonneg_decimal_def)
  have drop: "dropWhile isspace (ws @ ds @ rest) = ds @ rest"
    using ws d isdigit_not_isspace [of d] by (simp add: list_all_iff dropWhile_append2)
  have "takeWhile isdigit rest = []"
    using rest by (cases rest) auto
  then have take: "takeWhile isdigit (ds @ rest) = ds"
    using d by (simp add: list_all_iff takeWhile_append2)
  have h: "hd (ds @ rest) = d" "ds @ rest \<noteq> []" "ds \<noteq> []"
    using d(1) by simp_all
  have t: "tl (ds @ rest) = ds' @ rest"
    using d(1) by simp
  show ?thesis
    unfolding sscanf_d_def Let_def drop
    using h isdigit_not_sign [OF d(2)] take
    by simp
qed

text \<open>
  Claim C6 as stated fails: \<open>12abc\<close> is not a non-negative decimal integer, yet \<open>-T 12abc\<close>
  and \<open>-t 12abc\<close> are accepted, with the value 12.
\<close>

theorem trailing_characters_accepted:
  "\<not> nonneg_decimal ''12abc''
   \<and> ParseCommandLine example_env [''linux-sandbox'', ''-T'', ''12abc''] initial_opt
       = Inr (initial_opt\<lparr>timeout_secs := 12\<rparr>)
   \<and> ParseCommandLine example_env [''linux-sandbox'', ''-t'', ''12abc''] initial_opt
       = Inr (initial_opt\<lparr>kill_delay_secs := 12\<rparr>)"
  by (simp add: parse_eval initial_opt_def nonneg_decimal_def sscanf_d_def isspace_def
        isdigit_def decimal_def is_int_def Let_def)

text \<open>
  Claim C6, amended. The argument of \<open>-T\<close> or \<open>-t\<close> is read by \<open>sscanf\<close> with \<open>%d\<close>. It is
  rejected with a usage error exactly when \<open>sscanf\<close> finds no integer at its start or the
  integer found is negative; an integer found that is not negative is stored (where it
  is representable in an \<open>int\<close>; the other case is undefined). What \<open>sscanf\<close> finds does
  not depend on the characters after the digits: an argument made of white space, a
  non-negative decimal integer and anything that does not start with a digit is read as
  that integer.
\<close>

theorem numeric_options:
  "(sscanf_d arg = None \<longrightarrow>
      ParseCommandLine e [prog, ''-T'', arg] initial_opt = Inl (UsageError (InvalidTimeout arg))
      \<and> ParseCommandLine e [prog, ''-t'', arg] initial_opt
          = Inl (UsageError (InvalidKillDelay arg)))
   \<and> (sscanf_d arg = Some v \<and> is_int v \<and> v < 0 \<longrightarrow>
      ParseCommandLine e [prog, ''-T'', arg] initial_opt = Inl (UsageError (InvalidTimeout arg))
      \<and> ParseCommandLine e [prog, ''-t'', arg] initial_opt
          = Inl (UsageError (InvalidKillDelay arg)))
   \<and> (sscanf_d arg = Some v \<and> is_int v \<and> 0 \<le> v \<longrightarrow>
      ParseCommandLine e [prog, ''-T'', arg] initial_opt = Inr (initial_opt\<lparr>timeout_secs := v\<rparr>)
      \<and> ParseCommandLine e [prog, ''-t'', arg] initial_opt
          = Inr (initial_opt\<lparr>kill_delay_secs := v\<rparr>))
   \<and> (list_all isspace ws \<and> nonneg_decimal ds \<and> (rest = [] \<or> \<not> isdigit (hd rest)) \<longrightarrow>
      sscanf_d (ws @ ds @ rest) = Some (decimal ds) \<and> 0 \<le> decimal ds)"
proof -
  have T: "ParseCommandLine e [prog, ''-T'', arg] initial_opt =
     (case sscanf_d arg of
        None \<Rightarrow> Inl (UsageError (InvalidTimeout arg))
      | Some v \<Rightarrow>
          if \<not> is_int v then Inl (Undefined ''sscanf: not representable'')
          else if v < 0 then Inl (UsageError (InvalidTimeout arg))
          else Inr (initial_opt\<lparr>timeout_secs := v\<rparr>))"
    by (simp add: parse_eval initial_opt_def split: option.split)
  have t: "ParseCommandLine e [prog, ''-t'', arg] initial_opt =
     (case sscanf_d arg of
        None \<Rightarrow> Inl (UsageError (InvalidKillDelay arg))
      | Some v \<Rightarrow>
          if \<not> is_int v then Inl (Undefined ''sscanf: not representable'')
          else if v < 0 then Inl (UsageError (InvalidKillDelay arg))
          else Inr (initial_opt\<lparr>kill_delay_secs := v\<rparr>))"
    by (simp add: parse_eval initial_opt_def split: option.split)
  have shape: "list_all isspace ws \<and> nonneg_decimal ds \<and> (rest = [] \<or> \<not> isdigit (hd rest)) \<longrightarrow>
      sscanf_d (ws @ ds @ rest) = Some (decimal ds) \<and> 0 \<le> decimal ds"
    using sscanf_d_prefix [of ws ds rest] decimal_nonneg [of ds]
    by (auto simp: nonneg_decimal_def)
  show ?thesis
    unfolding T t using shape by simp
qed

theorem numeric_options_witness:
  "sscanf_d ''abc'' = None
   \<and> ParseCommandLine example_env [''linux-sandbox'', ''-T'', ''abc''] initial_opt
       = Inl (UsageError (InvalidTimeout ''abc''))
   \<and> sscanf_d ''-5'' = Some (- 5) \<and> is_int (- 5)
   \<and> ParseCommandLine example_env [''linux-sandbox'', ''-t'', ''-5''] initial_opt
       = Inl (UsageError (InvalidKillDelay ''-5''))
   \<and> sscanf_d '' 30 s'' = Some 30 \<and> is_int 30
   \<and> ParseCommandLine example_env [''linux-sandbox'', ''-T'', '' 30 s''] initial_opt
       = Inr (initial_opt\<lparr>timeout_secs := 30\<rparr>)
   \<and> list_all isspace '' '' \<and> nonneg_decimal ''30'' \<and> \<not> isdigit (hd '' s'')
   \<and> decimal ''30'' = 30"
proof -
  have s: "sscanf_d ''abc'' = None" "sscanf_d ''-5'' = Some (- 5)" "sscanf_d '' 30 s'' = Some 30"
    by (simp_all add: sscanf_d_def isspace_def isdigit_def decimal_def Let_def)
  have i: "is_int (- 5)" "is_int 30"
    by (simp_all add: is_int_def)
  have d: "list_all isspace '' ''" "nonneg_decimal ''30''" "\<not> isdigit (hd '' s'')"
      "decimal ''30'' = 30"
    by (simp_all add: isspace_def isdigit_def nonneg_decimal_def decimal_def)
  from numeric_options [of "''abc''" example_env "''linux-sandbox''" 0 "[]" "[]" "[]"]
    numeric_options [of "''-5''" example_env "''linux-sandbox''" "- 5" "[]" "[]" "[]"]
    numeric_options [of "'' 30 s''" example_env "''linux-sandbox''" 30 "'' ''" "''30''" "'' s''"]
    s i d
  show ?thesis
    by simp
qed

subsection \<open>Argument Expander\<close>






text \<open>
  The bound on the depth of the recursion does not shape a result: what is returned
  with some depth of stack is returned with any greater depth.
\<close>

lemma Expand_deeper:
  "ExpandArgument d files acc tok = Inr xs \<Longrightarrow> ExpandArgument (d + k) files acc tok = Inr xs"
  "ExpandLines d files acc ls = Inr ys \<Longrightarrow> ExpandLines (d + k) files acc ls = Inr ys"
proof (induction d files acc tok and d files acc ls arbitrary: xs and ys
    rule: ExpandArgument_ExpandLines.induct)
  case (1 depth files expanded arg)
  then show ?case
    by (auto split: list.splits nat.splits option.splits sum.splits prod.splits if_splits)
next
  case (2 d files expanded)
  then show ?case by simp
next
  case (3 d files expanded line lines)
  then show ?case
    by (auto simp del: ExpandArgument.simps split: sum.splits if_splits)
qed

lemma ExpandArguments_deeper:
  assumes "ExpandArguments e argv = Inr xs"
  shows "ExpandArguments (e\<lparr>stack_depth := stack_depth e + k\<rparr>) argv = Inr xs"
proof -
  have "ExpandArguments_from d files acc argv = Inr xs \<Longrightarrow>
      ExpandArguments_from (d + k) files acc argv = Inr xs" for d files acc
  proof (induction argv arbitrary: acc)
    case Nil
    then show ?case by simp
  next
    case (Cons a argv)
    then show ?case
      by (auto simp: Expand_deeper(1) simp del: ExpandArgument.simps
            split: sum.splits if_splits)
  qed
  with assms show ?thesis
    by (simp add: ExpandArguments_def)
qed




end
